theory Spec2Isabelle
  imports Main
begin

section \<open>Strings as the TypeScript code uses them\<close>

text \<open>
  JavaScript strings are modelled as \<open>string\<close> (lists of characters). The three
  characters the CSV writer looks for get names, since a double quote cannot be written
  inside a string literal here.
\<close>

definition dquote :: char where
  "dquote = CHR 0x22"

definition newline :: char where
  "newline = CHR 0x0A"

definition comma :: char where
  "comma = CHR '',''"

text \<open>The marks that open the tool messages, as UTF-8 bytes.\<close>

definition cross_mark :: string where
  "cross_mark = [CHR 0xE2, CHR 0x9D, CHR 0x8C]"

definition no_entry_mark :: string where
  "no_entry_mark = [CHR 0xF0, CHR 0x9F, CHR 0x9A, CHR 0xAB]"

definition snake_mark :: string where
  "snake_mark = [CHR 0xF0, CHR 0x9F, CHR 0x90, CHR 0x8D]"

definition stopwatch_mark :: string where
  "stopwatch_mark = [CHR 0xE2, CHR 0x8F, CHR 0xB1, CHR 0xEF, CHR 0xB8, CHR 0x8F]"

text \<open>
  \<^verbatim>\<open>s.startsWith(t)\<close> and \<^verbatim>\<open>s.includes(t)\<close>; the latter is named
  \<open>includesStr\<close>, since \<open>includes\<close> is a reserved word here.
\<close>

fun startsWith :: "string \<Rightarrow> string \<Rightarrow> bool" where
  "startsWith s [] = True"
| "startsWith [] (c # cs) = False"
| "startsWith (x # xs) (c # cs) = (x = c \<and> startsWith xs cs)"

fun includesStr :: "string \<Rightarrow> string \<Rightarrow> bool" where
  "includesStr [] t = (t = [])"
| "includesStr (x # xs) t = (startsWith (x # xs) t \<or> includesStr xs t)"

text \<open>\<^verbatim>\<open>parts.join(sep)\<close>: the separator goes between the parts only.\<close>

fun join :: "string list \<Rightarrow> string \<Rightarrow> string" where
  "join [] sep = []"
| "join [x] sep = x"
| "join (x # y # ys) sep = x @ sep @ join (y # ys) sep"

text \<open>A number inside a template literal: its decimal digits.\<close>

fun showNat :: "nat \<Rightarrow> string" where
  "showNat n =
     (if n < 10 then [''0123456789'' ! n]
      else showNat (n div 10) @ [''0123456789'' ! (n mod 10)])"

declare showNat.simps [simp del]

text \<open>
  Truthiness of an optional string: \<^verbatim>\<open>undefined\<close>, \<^verbatim>\<open>null\<close> and the empty
  string are falsy. \<open>orElse\<close> is \<^verbatim>\<open>a || b\<close> on strings, \<open>orUndefined\<close> is
  \<^verbatim>\<open>a || undefined\<close>.
\<close>

fun truthy :: "string option \<Rightarrow> bool" where
  "truthy None = False"
| "truthy (Some s) = (s \<noteq> [])"

fun orElse :: "string option \<Rightarrow> string \<Rightarrow> string" where
  "orElse None d = d"
| "orElse (Some s) d = (if s = [] then d else s)"

definition orUndefined :: "string option \<Rightarrow> string option" where
  "orUndefined a = (if truthy a then a else None)"

section \<open>Thrown values\<close>

text \<open>
  What a \<^verbatim>\<open>catch\<close> clause can receive: an \<^verbatim>\<open>Error\<close> object with its message,
  a bare string, or anything else. \<open>messageOf\<close> is \<^verbatim>\<open>error.message\<close>, which only
  an \<^verbatim>\<open>Error\<close> has.
\<close>

datatype thrown = ErrorObj string | ThrownString string | ThrownOther

fun messageOf :: "thrown \<Rightarrow> string option" where
  "messageOf (ErrorObj m) = Some m"
| "messageOf (ThrownString s) = None"
| "messageOf ThrownOther = None"

section \<open>The tool set: createCSV\<close>

text \<open>
  The arguments the schema of \<^verbatim>\<open>createCSV\<close> admits, and the part of the call
  options the tools read (\<^verbatim>\<open>experimental_context\<close>).
\<close>

record csv_input =
  in_title :: string
  in_description :: "string option"
  in_headers :: "string list"
  in_rows :: "string list list"

record tool_context =
  ctx_userId :: "string option"
  ctx_sessionId :: "string option"
  ctx_userTier :: "string option"

text \<open>The object handed to \<^verbatim>\<open>db.createCSV\<close>.\<close>

record csv_insert =
  ins_id :: string
  ins_session_id :: "string option"
  ins_title :: string
  ins_description :: "string option"
  ins_headers :: "string list"
  ins_rows :: "string list list"
  ins_user_id :: "string option"
  ins_anonymous_id :: "string option"

text \<open>The object a successful call returns.\<close>

record csv_output =
  out_title :: string
  out_description :: "string option"
  out_headers :: "string list"
  out_rows :: "string list list"
  out_csvContent :: string
  out_rowCount :: nat
  out_columnCount :: nat
  out_csvId :: "string option"
  out_csvUrl :: "string option"
  out_instructions :: "string option"

text \<open>
  The three shapes of the returned value: the validation error (message, title, headers,
  expectedColumns, invalidRowCount), the result object, and the error object of the outer
  \<^verbatim>\<open>catch\<close> (message, title).
\<close>

datatype csv_result =
    CsvValidationError string string "string list" nat nat
  | CsvCreated csv_output
  | CsvCreationError string string

text \<open>
  The cell writer of the source: a cell that contains a comma, a double quote or a
  newline is put between double quotes, with \<^verbatim>\<open>cell.replace(/"/g, '""')\<close> applied;
  any other cell is returned as it is.
\<close>

definition replaceQuotes :: "string \<Rightarrow> string" where
  "replaceQuotes cell = concat (map (\<lambda>c. if c = dquote then [dquote, dquote] else [c]) cell)"

definition escapeCell :: "string \<Rightarrow> string" where
  "escapeCell cell =
     (if includesStr cell [comma] \<or> includesStr cell [dquote] \<or> includesStr cell [newline]
      then [dquote] @ replaceQuotes cell @ [dquote]
      else cell)"

definition csvContent :: "string list \<Rightarrow> string list list \<Rightarrow> string" where
  "csvContent headers rows =
     join (join headers [comma] # map (\<lambda>row. join (map escapeCell row) [comma]) rows) [newline]"

definition validationMessage :: "nat \<Rightarrow> nat \<Rightarrow> string" where
  "validationMessage headerCount invalidCount =
     cross_mark @ '' **CSV Validation Error**: All rows must have '' @ showNat headerCount
     @ '' columns to match headers. Found '' @ showNat invalidCount
     @ '' invalid row(s). Please regenerate the CSV with matching column counts.''"

definition csvInstructions :: "string \<Rightarrow> string" where
  "csvInstructions csvId =
     ''IMPORTANT: Include this EXACT line in your markdown response to display the table:''
     @ [newline, newline] @ ''![csv](csv:'' @ csvId @ '')'' @ [newline, newline]
     @ ''Do not write [View Table] or any other text - use the image syntax above.''"

definition insertData :: "string \<Rightarrow> csv_input \<Rightarrow> tool_context \<Rightarrow> csv_insert" where
  "insertData csvId inp ctx =
     \<lparr> ins_id = csvId,
       ins_session_id = orUndefined (ctx_sessionId ctx),
       ins_title = in_title inp,
       ins_description = orUndefined (in_description inp),
       ins_headers = in_headers inp,
       ins_rows = in_rows inp,
       ins_user_id = (if truthy (ctx_userId ctx) then ctx_userId ctx else None),
       ins_anonymous_id = (if truthy (ctx_userId ctx) then None else Some ''anonymous'') \<rparr>"

text \<open>
  \<^verbatim>\<open>createCSV.execute\<close>. What lies outside the function is a parameter:
  \<open>dbCreateCSV\<close> is \<^verbatim>\<open>db.createCSV\<close>, acting on a store of type \<open>'db\<close> and
  either throwing (\<open>Inl\<close> the thrown value) or returning the new store; \<open>uuid\<close> is
  what \<^verbatim>\<open>randomUUID()\<close> returns; \<open>trackError\<close> is what the analytics call
  \<^verbatim>\<open>track\<close> throws, if it throws. The function returns its result and
  the store it leaves behind.
\<close>

definition createCSV ::
  "(csv_insert \<Rightarrow> 'db \<Rightarrow> thrown + 'db) \<Rightarrow> string \<Rightarrow> thrown option \<Rightarrow>
   csv_input \<Rightarrow> tool_context \<Rightarrow> 'db \<Rightarrow> csv_result \<times> 'db" where
  "createCSV dbCreateCSV uuid trackError inp ctx db =
     (let headerCount = length (in_headers inp);
          invalidRows = filter (\<lambda>row. length row \<noteq> headerCount) (in_rows inp)
      in if length invalidRows > 0
         then (CsvValidationError (validationMessage headerCount (length invalidRows))
                 (in_title inp) (in_headers inp) headerCount (length invalidRows), db)
         else
           let content = csvContent (in_headers inp) (in_rows inp);
               (csvId, db') =
                 (case dbCreateCSV (insertData uuid inp ctx) db of
                    Inl err \<Rightarrow> (None, db)
                  | Inr newDb \<Rightarrow> (Some uuid, newDb))
           in case trackError of
                Some err \<Rightarrow>
                  (CsvCreationError
                     (cross_mark @ '' **CSV Creation Error**: ''
                        @ orElse (messageOf err) ''Unknown error occurred'')
                     (in_title inp), db')
              | None \<Rightarrow>
                  (CsvCreated
                     \<lparr> out_title = in_title inp,
                       out_description = in_description inp,
                       out_headers = in_headers inp,
                       out_rows = in_rows inp,
                       out_csvContent = content,
                       out_rowCount = length (in_rows inp),
                       out_columnCount = length (in_headers inp),
                       out_csvId = orUndefined csvId,
                       out_csvUrl =
                         (if truthy csvId then Some (''/api/csvs/'' @ orElse csvId []) else None),
                       out_instructions =
                         (if truthy csvId then Some (csvInstructions (orElse csvId [])) else None) \<rparr>,
                   db'))"

text \<open>
  Modelled from the spec: the persistence layer (\<^verbatim>\<open>@/lib/db\<close>) is not among the
  sources. The spec says a CSV artifact has an id and a structured payload, is persisted by
  the tool call, is immutable once created, and is resolved by its identifier at render
  time. The store is a map from identifiers to the inserted objects.
\<close>

type_synonym csv_store = "string \<rightharpoonup> csv_insert"

definition db_createCSV :: "csv_insert \<Rightarrow> csv_store \<Rightarrow> thrown + csv_store" where
  "db_createCSV d store = Inr (store(ins_id d \<mapsto> d))"

definition db_getCSV :: "csv_store \<Rightarrow> string \<Rightarrow> csv_insert option" where
  "db_getCSV store csvId = store csvId"

section \<open>The tool set: codeExecution\<close>

record code_input =
  ci_code :: string
  ci_description :: "string option"

text \<open>What \<^verbatim>\<open>sandbox.process.codeRun\<close> resolves to.\<close>

record execution =
  ex_exitCode :: int
  ex_result :: "string option"

text \<open>
  The calls a tool makes to the outside, in the order it makes them. A sandbox is named
  by a number. \<open>SandboxCreate\<close> records a sandbox that \<^verbatim>\<open>daytona.create\<close> has
  provisioned, \<open>SandboxDelete\<close> a call of \<^verbatim>\<open>sandbox.delete()\<close>.
\<close>

datatype tool_event =
    SandboxCreate nat
  | SandboxCodeRun nat string
  | SandboxDelete nat
  | TrackEvent string
  | PolarDaytonaUsage
  | PolarValyuUsage string
  | ConsoleError string

text \<open>
  The outside of \<^verbatim>\<open>codeExecution\<close>: what constructing the client and calling
  \<^verbatim>\<open>daytona.create\<close> does (throws, or provisions a sandbox), what running a given code in it does (throws, or yields an
  execution), the elapsed milliseconds, and what the analytics call, the billing call and
  \<^verbatim>\<open>sandbox.delete()\<close> throw, if they throw.
\<close>

record sandbox_world =
  sw_create :: "thrown + nat"
  sw_codeRun :: "string \<Rightarrow> thrown + execution"
  sw_executionTime :: nat
  sw_track :: "thrown option"
  sw_polar :: "thrown option"
  sw_delete :: "thrown option"

definition executionErrorText :: "execution \<Rightarrow> string" where
  "executionErrorText e =
     cross_mark @ '' **Execution Error**: '' @ orElse (ex_result e) ''Unknown error''"

definition executionText :: "code_input \<Rightarrow> execution \<Rightarrow> nat \<Rightarrow> string" where
  "executionText inp e executionTime =
     snake_mark @ '' **Python Code Execution**'' @ [newline]
     @ (if truthy (ci_description inp)
        then ''**Description**: '' @ orElse (ci_description inp) [] @ [newline] else [])
     @ [newline, newline]
     @ ''```python'' @ [newline] @ ci_code inp @ [newline] @ ''```'' @ [newline, newline]
     @ ''**Output:**'' @ [newline] @ ''```'' @ [newline]
     @ orElse (ex_result e) ''(No output produced)'' @ [newline] @ ''```'' @ [newline, newline]
     @ stopwatch_mark @ '' **Execution Time**: '' @ showNat executionTime @ ''ms''"

text \<open>
  The body of the inner \<^verbatim>\<open>try\<close> once the sandbox exists: it either throws (\<open>Inl\<close>)
  or returns the text of the reply (\<open>Inr\<close>), and lists the calls it made. The billing
  call sits in a \<^verbatim>\<open>try\<close> of its own, so its failure is only logged.
\<close>

definition runInSandbox ::
  "sandbox_world \<Rightarrow> bool \<Rightarrow> code_input \<Rightarrow> tool_context \<Rightarrow> nat \<Rightarrow>
   (thrown + string) \<times> tool_event list" where
  "runInSandbox w isDevelopment inp ctx sandbox =
     (case sw_codeRun w (ci_code inp) of
        Inl err \<Rightarrow> (Inl err, [SandboxCodeRun sandbox (ci_code inp)])
      | Inr e \<Rightarrow>
          (case sw_track w of
             Some err \<Rightarrow>
               (Inl err,
                [SandboxCodeRun sandbox (ci_code inp), TrackEvent ''Python Code Executed''])
           | None \<Rightarrow>
               (let billing =
                      (if truthy (ctx_userId ctx) \<and> truthy (ctx_sessionId ctx)
                          \<and> ctx_userTier ctx = Some ''pay_per_use''
                          \<and> ex_exitCode e = 0 \<and> \<not> isDevelopment
                       then PolarDaytonaUsage #
                            (case sw_polar w of
                               Some err \<Rightarrow> [ConsoleError ''[CodeExecution] Failed to track usage:'']
                             | None \<Rightarrow> [])
                       else [])
                in (Inr (if ex_exitCode e \<noteq> 0 then executionErrorText e
                         else executionText inp e (sw_executionTime w)),
                    [SandboxCodeRun sandbox (ci_code inp), TrackEvent ''Python Code Executed'']
                    @ billing))))"

text \<open>
  The \<^verbatim>\<open>finally\<close> block: if the variable \<^verbatim>\<open>sandbox\<close> is set, \<^verbatim>\<open>delete()\<close> is
  called on it; a failure of the deletion is logged and goes no further.
\<close>

definition cleanup :: "sandbox_world \<Rightarrow> nat option \<Rightarrow> tool_event list" where
  "cleanup w sandbox =
     (case sandbox of
        None \<Rightarrow> []
      | Some sb \<Rightarrow>
          SandboxDelete sb #
          (case sw_delete w of
             Some err \<Rightarrow> [ConsoleError ''[CodeExecution] Cleanup error:'']
           | None \<Rightarrow> []))"

definition errorText :: "thrown \<Rightarrow> string" where
  "errorText err = cross_mark @ '' **Error**: '' @ orElse (messageOf err) ''Unknown error occurred''"

text \<open>
  \<^verbatim>\<open>codeExecution.execute\<close>: the reply and the calls made. \<open>daytonaApiKey\<close> is
  \<^verbatim>\<open>process.env.DAYTONA_API_KEY\<close>, \<open>isDevelopment\<close> the test of the mode flag.
\<close>

definition codeExecution ::
  "sandbox_world \<Rightarrow> bool \<Rightarrow> string option \<Rightarrow> code_input \<Rightarrow> tool_context \<Rightarrow>
   string \<times> tool_event list" where
  "codeExecution w isDevelopment daytonaApiKey inp ctx =
     (if length (ci_code inp) > 10000
      then (no_entry_mark
              @ '' **Error**: Code too long. Please limit your code to 10,000 characters.'', [])
      else if \<not> truthy daytonaApiKey
      then (cross_mark @ '' **Configuration Error**: Daytona API key is not configured.'', [])
      else
        (case sw_create w of
           Inl err \<Rightarrow> (errorText err, cleanup w None)
         | Inr sandbox \<Rightarrow>
             (let (outcome, calls) = runInSandbox w isDevelopment inp ctx sandbox;
                  trace = SandboxCreate sandbox # calls @ cleanup w (Some sandbox)
              in case outcome of
                   Inl err \<Rightarrow> (errorText err, trace)
                 | Inr reply \<Rightarrow> (reply, trace))))"

section \<open>The tool set: patentAnalysis\<close>

record patent_input =
  pa_query :: string
  pa_maxResults :: nat

text \<open>
  The response of the search API as far as the tool reads it: the result records (of a
  type \<open>'r\<close> the tool never looks into) and the cost (of a type \<open>'c\<close>).
\<close>

record ('r, 'c) search_response =
  sr_results :: "'r list option"
  sr_total_deduction_dollars :: "'c option"

text \<open>
  The object given to \<^verbatim>\<open>JSON.stringify\<close>, and the two kinds of reply: that object
  serialized, or a plain text.
\<close>

record 'r patent_payload =
  pp_type :: string
  pp_query :: string
  pp_resultCount :: nat
  pp_results :: "'r list"
  pp_favicon :: string
  pp_displaySource :: string

datatype 'r tool_reply = JsonPayload "'r patent_payload" | TextReply string

text \<open>
  The outside of the search tools: \<^verbatim>\<open>valyu.search\<close> for a query and a
  \<^verbatim>\<open>maxNumResults\<close> (it throws, or resolves to a response, possibly none), and what
  the analytics and billing calls throw, if they throw.
\<close>

record ('r, 'c) valyu_world =
  vw_search :: "string \<Rightarrow> nat \<Rightarrow> thrown + ('r, 'c) search_response option"
  vw_track :: "thrown option"
  vw_polar :: "thrown option"

text \<open>\<^verbatim>\<open>response?.results || []\<close>.\<close>

definition resultsOf :: "('r, 'c) search_response option \<Rightarrow> 'r list" where
  "resultsOf response =
     (case response of
        None \<Rightarrow> []
      | Some r \<Rightarrow> (case sr_results r of None \<Rightarrow> [] | Some rs \<Rightarrow> rs))"

definition analysisErrorText :: "thrown \<Rightarrow> string" where
  "analysisErrorText err =
     cross_mark @ '' Error analyzing patents: ''
     @ (case err of ErrorObj m \<Rightarrow> m | ThrownString s \<Rightarrow> ''Unknown error''
        | ThrownOther \<Rightarrow> ''Unknown error'')"

definition patentAnalysis ::
  "('r, 'c) valyu_world \<Rightarrow> bool \<Rightarrow> string option \<Rightarrow> patent_input \<Rightarrow> tool_context \<Rightarrow>
   'r tool_reply \<times> tool_event list" where
  "patentAnalysis w isDevelopment apiKey inp ctx =
     (if \<not> truthy apiKey
      then (TextReply (cross_mark @ '' Valyu API key not configured.''), [])
      else
        (case vw_search w (pa_query inp) (if pa_maxResults inp = 0 then 5 else pa_maxResults inp) of
           Inl err \<Rightarrow> (TextReply (analysisErrorText err), [])
         | Inr response \<Rightarrow>
             (case vw_track w of
                Some err \<Rightarrow> (TextReply (analysisErrorText err), [TrackEvent ''Valyu API Call''])
              | None \<Rightarrow>
                  (let billing =
                         (if truthy (ctx_userId ctx) \<and> truthy (ctx_sessionId ctx)
                             \<and> ctx_userTier ctx = Some ''pay_per_use'' \<and> \<not> isDevelopment
                          then PolarValyuUsage ''patentAnalysis'' #
                               (case vw_polar w of
                                  Some err \<Rightarrow>
                                    [ConsoleError ''[PatentAnalysis] Failed to track usage:'']
                                | None \<Rightarrow> [])
                          else [])
                   in (JsonPayload
                         \<lparr> pp_type = ''patent_analysis'',
                           pp_query = pa_query inp,
                           pp_resultCount = length (resultsOf response),
                           pp_results = resultsOf response,
                           pp_favicon = ''https://www.uspto.gov/favicon.ico'',
                           pp_displaySource = ''USPTO (via Valyu)'' \<rparr>,
                       TrackEvent ''Valyu API Call'' # billing)))))"

section \<open>Environment validation\<close>

text \<open>
  \<^verbatim>\<open>process.env\<close> maps variable names to values; an unset variable and an empty one
  are both falsy.
\<close>

type_synonym process_env = "string \<Rightarrow> string option"

record EnvValidationResult =
  valid :: bool
  errors :: "string list"
  warnings :: "string list"

definition isDevelopmentEnv :: "process_env \<Rightarrow> bool" where
  "isDevelopmentEnv env = (env ''NEXT_PUBLIC_APP_MODE'' = Some ''development'')"

text \<open>\<open>missing env k\<close> is the test \<^verbatim>\<open>!process.env.K\<close>.\<close>

definition missing :: "process_env \<Rightarrow> string \<Rightarrow> bool" where
  "missing env k = (\<not> truthy (env k))"

text \<open>One \<^verbatim>\<open>if (c) list.push(msg)\<close> statement.\<close>

definition pushIf :: "bool \<Rightarrow> string \<Rightarrow> string list" where
  "pushIf c msg = (if c then [msg] else [])"

definition validationErrors :: "process_env \<Rightarrow> string list" where
  "validationErrors env =
     (let isDevelopment = isDevelopmentEnv env; isProduction = \<not> isDevelopment in
        (if \<not> isDevelopment then
           pushIf (missing env ''NEXT_PUBLIC_SUPABASE_URL'') ''NEXT_PUBLIC_SUPABASE_URL is required''
           @ pushIf (missing env ''NEXT_PUBLIC_SUPABASE_ANON_KEY'')
               ''NEXT_PUBLIC_SUPABASE_ANON_KEY is required''
           @ pushIf (missing env ''SUPABASE_SERVICE_ROLE_KEY'') ''SUPABASE_SERVICE_ROLE_KEY is required''
         else [])
        @ (if isProduction then
             pushIf (missing env ''POLAR_ACCESS_TOKEN'') ''POLAR_ACCESS_TOKEN is required in production''
             @ pushIf (missing env ''POLAR_WEBHOOK_SECRET'')
                 ''POLAR_WEBHOOK_SECRET is required in production''
             @ pushIf (missing env ''POLAR_UNLIMITED_PRODUCT_ID'')
                 ''POLAR_UNLIMITED_PRODUCT_ID is required in production''
             @ pushIf (missing env ''POLAR_PAY_PER_USE_PRODUCT_ID'')
                 ''POLAR_PAY_PER_USE_PRODUCT_ID is required in production''
             @ pushIf (missing env ''AI_GATEWAY_API_KEY'')
                 ''AI_GATEWAY_API_KEY is required - get your key at https://vercel.com/dashboard > AI Gateway > API Keys''
           else [])
        @ pushIf (truthy (env ''NEXT_PUBLIC_SUPABASE_URL'')
                  \<and> \<not> startsWith (orElse (env ''NEXT_PUBLIC_SUPABASE_URL'') []) ''https://'')
            ''NEXT_PUBLIC_SUPABASE_URL must be a valid HTTPS URL'')"

definition validationWarnings :: "process_env \<Rightarrow> string list" where
  "validationWarnings env =
     (let isDevelopment = isDevelopmentEnv env; isProduction = \<not> isDevelopment in
        (if isProduction then
           pushIf (missing env ''VALYU_API_KEY'') ''VALYU_API_KEY missing - patent search will fail''
           @ pushIf (missing env ''DAYTONA_API_KEY'')
               ''DAYTONA_API_KEY missing - code execution will fail''
         else [])
        @ pushIf (isDevelopment \<and> missing env ''AI_GATEWAY_API_KEY'')
            ''AI_GATEWAY_API_KEY missing - recommended for Vercel AI SDK integration'')"

text \<open>
  \<^verbatim>\<open>validatePaymentEnvironment\<close>. The source pushes onto two arrays in one pass; the
  two lists above hold the pushes onto each, in the order of the source.
\<close>

definition validatePaymentEnvironment :: "process_env \<Rightarrow> EnvValidationResult" where
  "validatePaymentEnvironment env =
     \<lparr> valid = (length (validationErrors env) = 0),
       errors = validationErrors env,
       warnings = validationWarnings env \<rparr>"

text \<open>
  What loading the module does at process start: the lines it writes to the console, and
  whether the load completes or throws.
\<close>

datatype console_line = LogLine string | WarnLine string | ErrorLine string

datatype load_outcome = Loaded | LoadThrows thrown

text \<open>
  The statement at the end of the module: outside development mode it validates and, when
  the result is not valid, writes each error with \<^verbatim>\<open>console.error\<close>. It has no
  \<^verbatim>\<open>throw\<close>; its comment reads "Don't throw in production to avoid complete app
  failure, but log critically".
\<close>

definition moduleLoad :: "process_env \<Rightarrow> console_line list \<times> load_outcome" where
  "moduleLoad env =
     (if env ''NEXT_PUBLIC_APP_MODE'' \<noteq> Some ''development''
      then (let validation = validatePaymentEnvironment env
            in if \<not> valid validation
               then (map (\<lambda>e. ErrorLine (''  - '' @ e)) (errors validation), Loaded)
               else ([], Loaded))
      else ([], Loaded))"

text \<open>\<^verbatim>\<open>logEnvironmentStatus\<close>: the lines it writes.\<close>

definition logEnvironmentStatus :: "process_env \<Rightarrow> console_line list" where
  "logEnvironmentStatus env =
     (if env ''NEXT_PUBLIC_APP_MODE'' = Some ''development''
      then [LogLine ''[Env] Development mode detected - skipping Supabase/Polar validation'']
      else (let validation = validatePaymentEnvironment env in
              (if valid validation then []
               else map (\<lambda>e. ErrorLine (''  - '' @ e)) (errors validation))
              @ (if length (warnings validation) > 0
                 then map (\<lambda>w. WarnLine (''  - '' @ w)) (warnings validation)
                 else [])))"

section \<open>The chat endpoint: data\<close>

text \<open>
  A message of the request body: its role is a string, its parts are of a type \<open>'p\<close> the
  handler never looks into, and may be absent. The body also carries the session
  identifier; the three headers the handler reads belong to the request, whose
  \<^verbatim>\<open>json()\<close> either throws or yields the body.
\<close>

record 'p ui_message =
  msg_id :: string
  msg_role :: string
  msg_parts :: "'p list option"

record 'p chat_body =
  cb_messages :: "'p ui_message list"
  cb_sessionId :: "string option"

record 'p chat_request =
  rq_json :: "thrown + 'p chat_body"
  rq_ollama_enabled :: "string option"
  rq_local_provider :: "string option"
  rq_ollama_model :: "string option"

text \<open>
  A message as the store holds it. Its content is a list of parts, or a string that
  \<^verbatim>\<open>JSON.parse\<close> turns into one.
\<close>

datatype 'p stored_content = ContentParts "'p list" | ContentString string

record 'p stored_message =
  sm_id :: string
  sm_role :: string
  sm_content :: "'p stored_content"

record access_validation =
  av_hasAccess :: bool
  av_requiresPaymentSetup :: bool
  av_tier :: string

record rate_limit_status =
  rl_allowed :: bool
  rl_remaining :: nat
  rl_resetTime :: string
  rl_limit :: nat
  rl_tier :: string

record user_profile =
  up_subscription_tier :: "string option"
  up_subscriptionTier :: "string option"
  up_subscription_status :: "string option"
  up_subscriptionStatus :: "string option"

text \<open>
  What probing the local model server gives: the request or the reading of its body throws
  (no connection, the three-second timeout, a body that is not JSON), the server answers
  with a status that is not ok, or it answers with a body, whose list of model names may be
  absent.
\<close>

datatype probe_outcome = ProbeThrows thrown | ProbeNotOk nat | ProbeOk "string list option"

text \<open>
  The model handed to \<^verbatim>\<open>streamText\<close>: a gateway model identifier, a model of the
  direct OpenAI provider, a chat model of a local OpenAI-compatible server (base URL and
  name), or the usage-tracked wrapper for a user.
\<close>

datatype model_choice =
    GatewayModel string
  | OpenAIModel string
  | LocalModel string string
  | PolarTrackedModel string string

record selection =
  sel_model :: model_choice
  sel_modelInfo :: string
  sel_supportsThinking :: bool

datatype provider_options = LocalThink bool | OpenAIReasoning

text \<open>The responses: a JSON body with a status and headers, or the stream.\<close>

datatype field_value = Str string | Num nat | StackOfError

record error_body =
  eb_error :: string
  eb_message :: string
  eb_fields :: "(string \<times> field_value) list"

datatype response =
    JsonResponse nat error_body "(string \<times> string) list"
  | StreamResponse "(string \<times> string) list"

text \<open>
  Everything outside the handler that it consults, with the outcome of each call: a call
  that can throw has a sum type, \<open>Inl\<close> the thrown value.
\<close>

record 'p chat_env =
  ce_isDevelopment :: bool
  ce_getUser :: "thrown + string option"
  ce_createClient :: "thrown option"
  ce_validateAccess :: "thrown + access_validation"
  ce_checkAnonymousRateLimit :: "thrown + rate_limit_status"
  ce_checkUserRateLimit :: "thrown + rate_limit_status"
  ce_incrementRateLimit :: "thrown option"
  ce_hasGatewayKey :: bool
  ce_hasOpenAIKey :: bool
  ce_ollamaBaseUrl :: "string option"
  ce_lmstudioBaseUrl :: "string option"
  ce_probe :: probe_outcome
  ce_getUserProfile :: "thrown + user_profile option"
  ce_randomUUID :: string
  ce_getChatMessagesFails :: bool
  ce_jsonParse :: "string \<Rightarrow> thrown + 'p list"
  ce_saveChatMessagesFails :: bool
  ce_updateChatSession :: "thrown option"
  ce_streamText :: "thrown option"

text \<open>The calls the handler makes to the outside, in the order it makes them.\<close>

datatype chat_event =
    ValidateAccess string
  | CheckAnonymousRateLimit
  | CheckUserRateLimit string
  | IncrementRateLimit string
  | ProbeLocal string
  | GetUserProfile string
  | GetChatMessages string
  | SaveChatMessages string
  | UpdateChatSession string string
  | StreamText model_choice provider_options

text \<open>
  The state the handler acts on: the calls made so far, and the messages of each session.
\<close>

record 'p chat_world =
  cw_events :: "chat_event list"
  cw_sessions :: "string \<rightharpoonup> 'p stored_message list"

text \<open>
  A step of the handler either goes on with a value, returns a response at once, or throws
  into the \<^verbatim>\<open>catch\<close> of the handler.
\<close>

datatype 'a step = Next 'a | Return response | Throw thrown

type_synonym ('a, 'p) act = "'p chat_world \<Rightarrow> 'a step \<times> 'p chat_world"

definition bindA :: "('a, 'p) act \<Rightarrow> ('a \<Rightarrow> ('b, 'p) act) \<Rightarrow> ('b, 'p) act" where
  "bindA m f w =
     (case m w of
        (Next x, w') \<Rightarrow> f x w'
      | (Return r, w') \<Rightarrow> (Return r, w')
      | (Throw e, w') \<Rightarrow> (Throw e, w'))"

definition proceed :: "'a \<Rightarrow> ('a, 'p) act" where
  "proceed x w = (Next x, w)"

definition respond :: "response \<Rightarrow> ('a, 'p) act" where
  "respond r w = (Return r, w)"

definition raise :: "thrown \<Rightarrow> ('a, 'p) act" where
  "raise e w = (Throw e, w)"

definition await :: "thrown + 'a \<Rightarrow> ('a, 'p) act" where
  "await outcome w = (case outcome of Inl e \<Rightarrow> (Throw e, w) | Inr x \<Rightarrow> (Next x, w))"

definition awaitVoid :: "thrown option \<Rightarrow> (unit, 'p) act" where
  "awaitVoid outcome w = (case outcome of Some e \<Rightarrow> (Throw e, w) | None \<Rightarrow> (Next (), w))"

definition emit :: "chat_event \<Rightarrow> (unit, 'p) act" where
  "emit ev w = (Next (), w\<lparr>cw_events := cw_events w @ [ev]\<rparr>)"

text \<open>\<^verbatim>\<open>s.toLowerCase()\<close> on the letters A to Z.\<close>

definition lowerChar :: "char \<Rightarrow> char" where
  "lowerChar c =
     (case map_of (zip ''ABCDEFGHIJKLMNOPQRSTUVWXYZ'' ''abcdefghijklmnopqrstuvwxyz'') c of
        Some l \<Rightarrow> l
      | None \<Rightarrow> c)"

definition toLowerCase :: "string \<Rightarrow> string" where
  "toLowerCase s = map lowerChar s"

text \<open>\<^verbatim>\<open>a || b\<close> on optional strings.\<close>

definition orOpt :: "string option \<Rightarrow> string option \<Rightarrow> string option" where
  "orOpt a b = (if truthy a then a else b)"

definition jsonHeaders :: "(string \<times> string) list" where
  "jsonHeaders = [(''Content-Type'', ''application/json'')]"

section \<open>The chat endpoint: the handler\<close>

text \<open>
  The test at the head of the handler: the last message has the role \<^verbatim>\<open>user\<close> and
  the body holds exactly one message with that role.
\<close>

definition isUserMessage :: "'p ui_message list \<Rightarrow> bool" where
  "isUserMessage messages = (messages \<noteq> [] \<and> msg_role (last messages) = ''user'')"

definition userMessageCount :: "'p ui_message list \<Rightarrow> nat" where
  "userMessageCount messages = length (filter (\<lambda>m. msg_role m = ''user'') messages)"

definition isUserInitiated :: "'p ui_message list \<Rightarrow> bool" where
  "isUserInitiated messages = (isUserMessage messages \<and> userMessageCount messages = 1)"

text \<open>The two Supabase clients, created outside development mode only.\<close>

definition createClients :: "'p chat_env \<Rightarrow> (unit, 'p) act" where
  "createClients env =
     (if \<not> ce_isDevelopment env then awaitVoid (ce_createClient env) else proceed ())"

definition paymentRequired :: "access_validation \<Rightarrow> response" where
  "paymentRequired a =
     JsonResponse 402
       \<lparr> eb_error = ''PAYMENT_REQUIRED'',
         eb_message = ''Payment method setup required'',
         eb_fields = [(''tier'', Str (av_tier a)), (''action'', Str ''setup_payment'')] \<rparr>
       jsonHeaders"

definition accessStage :: "'p chat_env \<Rightarrow> string option \<Rightarrow> (unit, 'p) act" where
  "accessStage env user =
     (case user of
        None \<Rightarrow> proceed ()
      | Some uid \<Rightarrow>
          if \<not> ce_isDevelopment env then
            bindA (emit (ValidateAccess uid)) (\<lambda>_.
            bindA (await (ce_validateAccess env)) (\<lambda>accessValidation.
              if \<not> av_hasAccess accessValidation \<and> av_requiresPaymentSetup accessValidation
              then respond (paymentRequired accessValidation)
              else proceed ()))
          else proceed ())"

definition anonymousLimitExceeded :: "rate_limit_status \<Rightarrow> response" where
  "anonymousLimitExceeded st =
     JsonResponse 429
       \<lparr> eb_error = ''RATE_LIMIT_EXCEEDED'',
         eb_message = ''You have exceeded your daily limit of 5 queries. Sign up to continue.'',
         eb_fields = [(''resetTime'', Str (rl_resetTime st)), (''remaining'', Num (rl_remaining st))] \<rparr>
       [(''Content-Type'', ''application/json''),
        (''X-RateLimit-Limit'', showNat (rl_limit st)),
        (''X-RateLimit-Remaining'', showNat (rl_remaining st)),
        (''X-RateLimit-Reset'', rl_resetTime st)]"

definition userLimitExceeded :: "rate_limit_status \<Rightarrow> response" where
  "userLimitExceeded st =
     JsonResponse 429
       \<lparr> eb_error = ''RATE_LIMIT_EXCEEDED'',
         eb_message = ''Daily query limit reached. Upgrade to continue.'',
         eb_fields = [(''resetTime'', Str (rl_resetTime st)), (''tier'', Str (rl_tier st))] \<rparr>
       jsonHeaders"

text \<open>The rate-limit check, made for user-initiated requests outside development mode.\<close>

definition rateLimitStage ::
  "'p chat_env \<Rightarrow> string option \<Rightarrow> 'p ui_message list \<Rightarrow> (unit, 'p) act" where
  "rateLimitStage env user messages =
     (if isUserInitiated messages \<and> \<not> ce_isDevelopment env then
        (case user of
           None \<Rightarrow>
             bindA (emit CheckAnonymousRateLimit) (\<lambda>_.
             bindA (await (ce_checkAnonymousRateLimit env)) (\<lambda>rateLimitStatus.
               if \<not> rl_allowed rateLimitStatus
               then respond (anonymousLimitExceeded rateLimitStatus)
               else proceed ()))
         | Some uid \<Rightarrow>
             bindA (emit (CheckUserRateLimit uid)) (\<lambda>_.
             bindA (await (ce_checkUserRateLimit env)) (\<lambda>rateLimitResult.
               if \<not> rl_allowed rateLimitResult
               then respond (userLimitExceeded rateLimitResult)
               else proceed ())))
      else proceed ())"

definition gatewayKeyStage :: "'p chat_env \<Rightarrow> (unit, 'p) act" where
  "gatewayKeyStage env =
     (if \<not> ce_hasGatewayKey env \<and> \<not> ce_isDevelopment env
      then raise (ErrorObj
             ''AI_GATEWAY_API_KEY is required. Get your key at https://vercel.com/dashboard > AI Gateway > API Keys'')
      else proceed ())"

subsection \<open>Provider selection\<close>

definition thinkingModels :: "string list" where
  "thinkingModels =
     [''deepseek-r1'', ''deepseek-v3'', ''deepseek-v3.1'', ''qwen3'', ''qwq'',
      ''phi4-reasoning'', ''phi-4-reasoning'', ''cogito'']"

definition preferredModels :: "string list" where
  "preferredModels =
     [''deepseek-r1'', ''qwen3'', ''phi4-reasoning'', ''cogito'',
      ''llama3.1'', ''gemma3:4b'', ''gemma3'', ''llama3.2'', ''llama3'', ''qwen2.5'', ''codestral'']"

definition localEnabled :: "'p chat_request \<Rightarrow> bool" where
  "localEnabled req = (rq_ollama_enabled req \<noteq> Some ''false'')"

definition localProvider :: "'p chat_request \<Rightarrow> string" where
  "localProvider req = orElse (rq_local_provider req) ''ollama''"

text \<open>
  The probe of the selected local provider: it throws, or gives the models to choose
  from, the provider's name and the base URL. The LM Studio branch maps over the list
  (which throws when the list is absent) and drops the embedding models; the Ollama
  branch takes an absent list as empty.
\<close>

definition probeModels ::
  "'p chat_env \<Rightarrow> 'p chat_request \<Rightarrow> thrown + (string list \<times> string \<times> string)" where
  "probeModels env req =
     (if localProvider req = ''lmstudio'' then
        (case ce_probe env of
           ProbeThrows e \<Rightarrow> Inl e
         | ProbeNotOk status \<Rightarrow>
             Inl (ErrorObj (''LM Studio API responded with status '' @ showNat status))
         | ProbeOk None \<Rightarrow>
             Inl (ErrorObj (''Cannot read properties of undefined (reading ''
                            @ [CHR 0x27] @ ''map'' @ [CHR 0x27] @ '')''))
         | ProbeOk (Some names) \<Rightarrow>
             Inr (filter (\<lambda>n. \<not> includesStr n ''embed'' \<and> \<not> includesStr n ''embedding''
                              \<and> \<not> includesStr n ''nomic'') names,
                  ''LM Studio'',
                  orElse (ce_lmstudioBaseUrl env) ''http://localhost:1234'' @ ''/v1''))
      else
        (case ce_probe env of
           ProbeThrows e \<Rightarrow> Inl e
         | ProbeNotOk status \<Rightarrow>
             Inl (ErrorObj (''Ollama API responded with status '' @ showNat status))
         | ProbeOk names \<Rightarrow>
             Inr ((case names of None \<Rightarrow> [] | Some ns \<Rightarrow> ns),
                  ''Ollama'',
                  orElse (ce_ollamaBaseUrl env) ''http://localhost:11434'' @ ''/v1'')))"

text \<open>The loop over the preference list, left at the first name some model contains.\<close>

fun pickPreferred :: "string list \<Rightarrow> string list \<Rightarrow> string option" where
  "pickPreferred models [] = None"
| "pickPreferred models (preferred # rest) =
     (case find (\<lambda>m. includesStr m preferred) models of
        Some m \<Rightarrow> Some m
      | None \<Rightarrow> pickPreferred models rest)"

text \<open>
  The choice of the model name; \<open>first\<close> is \<^verbatim>\<open>models[0].name\<close>, the name kept when
  neither the user's preference nor the preference list applies.
\<close>

definition selectModelName :: "string \<Rightarrow> string list \<Rightarrow> string option \<Rightarrow> string" where
  "selectModelName first models userPreferredModel =
     (if truthy userPreferredModel \<and> orElse userPreferredModel [] \<in> set models
      then orElse userPreferredModel []
      else (case pickPreferred models preferredModels of
              Some m \<Rightarrow> m
            | None \<Rightarrow> first))"

text \<open>The body of the \<^verbatim>\<open>try\<close> in development mode: throws, or selects a local model.\<close>

definition selectLocal :: "'p chat_env \<Rightarrow> 'p chat_request \<Rightarrow> thrown + selection" where
  "selectLocal env req =
     (case probeModels env req of
        Inl e \<Rightarrow> Inl e
      | Inr (models, providerName, baseURL) \<Rightarrow>
          (case models of
             [] \<Rightarrow> Inl (ErrorObj (''No models available in '' @ localProvider req))
           | first # others \<Rightarrow>
            (let selectedModelName = selectModelName first models (rq_ollama_model req);
                 supportsThinking =
                   list_ex (\<lambda>thinkModel.
                       includesStr (toLowerCase selectedModelName) (toLowerCase thinkModel))
                     thinkingModels
             in Inr \<lparr> sel_model = LocalModel baseURL selectedModelName,
                      sel_modelInfo =
                        providerName @ '' ('' @ selectedModelName @ '')''
                        @ (if supportsThinking then '' [Reasoning]'' else [])
                        @ '' - Development Mode'',
                      sel_supportsThinking = supportsThinking \<rparr>)))"

text \<open>The \<^verbatim>\<open>catch\<close> of that \<^verbatim>\<open>try\<close>: the hosted path, by the keys that are set.\<close>

definition developmentFallback :: "'p chat_env \<Rightarrow> selection" where
  "developmentFallback env =
     (if ce_hasGatewayKey env then
        \<lparr> sel_model = GatewayModel ''openai/gpt-5'',
          sel_modelInfo = ''Vercel AI Gateway (gpt-5) - Development Mode Fallback'',
          sel_supportsThinking = False \<rparr>
      else if ce_hasOpenAIKey env then
        \<lparr> sel_model = OpenAIModel ''gpt-5'',
          sel_modelInfo = ''OpenAI (gpt-5) - Development Mode Fallback'',
          sel_supportsThinking = False \<rparr>
      else
        \<lparr> sel_model = GatewayModel ''openai/gpt-5'',
          sel_modelInfo = ''Vercel AI Gateway (gpt-5) - Development Mode (API Key Required)'',
          sel_supportsThinking = False \<rparr>)"

definition hostedModel :: "'p chat_env \<Rightarrow> model_choice" where
  "hostedModel env =
     (if ce_hasGatewayKey env then GatewayModel ''openai/gpt-5''
      else if ce_hasOpenAIKey env then OpenAIModel ''gpt-5''
      else GatewayModel ''openai/gpt-5'')"

definition tierOf :: "user_profile option \<Rightarrow> string" where
  "tierOf userData =
     (case userData of
        None \<Rightarrow> ''free''
      | Some d \<Rightarrow> orElse (orOpt (up_subscription_tier d) (up_subscriptionTier d)) ''free'')"

definition isActive :: "user_profile option \<Rightarrow> bool" where
  "isActive userData =
     (case userData of
        None \<Rightarrow> False
      | Some d \<Rightarrow> orOpt (up_subscription_status d) (up_subscriptionStatus d) = Some ''active'')"

definition selectForUser :: "'p chat_env \<Rightarrow> string \<Rightarrow> user_profile option \<Rightarrow> selection" where
  "selectForUser env uid userData =
     (let userTier = tierOf userData in
      if isActive userData \<and> userTier = ''pay_per_use'' then
        \<lparr> sel_model = PolarTrackedModel uid ''gpt-5'',
          sel_modelInfo = ''OpenAI (gpt-5) - Production Mode (Polar Tracked - Pay-per-use)'',
          sel_supportsThinking = False \<rparr>
      else
        \<lparr> sel_model = hostedModel env,
          sel_modelInfo =
            (if ce_hasGatewayKey env
             then ''Vercel AI Gateway (gpt-5) - Production Mode ('' @ userTier @ '' tier)''
             else if ce_hasOpenAIKey env
             then ''OpenAI (gpt-5) - Production Mode ('' @ userTier @ '' tier - Fallback)''
             else ''Vercel AI Gateway (gpt-5) - Production Mode ('' @ userTier
                  @ '' tier - API Key Required)''),
          sel_supportsThinking = False \<rparr>)"

definition selectAnonymous :: "'p chat_env \<Rightarrow> selection" where
  "selectAnonymous env =
     \<lparr> sel_model = hostedModel env,
       sel_modelInfo =
         (if ce_hasGatewayKey env then ''Vercel AI Gateway (gpt-5) - Production Mode (Anonymous)''
          else if ce_hasOpenAIKey env then ''OpenAI (gpt-5) - Production Mode (Anonymous - Fallback)''
          else ''Vercel AI Gateway (gpt-5) - Production Mode (Anonymous - API Key Required)''),
       sel_supportsThinking = False \<rparr>"

text \<open>
  The selection step of the handler. In development mode with local models enabled the
  local provider is probed, and whatever the probing throws is caught and replaced by the
  fallback; otherwise the branch on the user and the subscription tier is taken.
\<close>

definition selectProvider ::
  "'p chat_env \<Rightarrow> 'p chat_request \<Rightarrow> string option \<Rightarrow> (selection, 'p) act" where
  "selectProvider env req user =
     (if ce_isDevelopment env \<and> localEnabled req then
        bindA (emit (ProbeLocal (localProvider req))) (\<lambda>_.
          case selectLocal env req of
            Inr sel \<Rightarrow> proceed sel
          | Inl err \<Rightarrow> proceed (developmentFallback env))
      else
        (case user of
           Some uid \<Rightarrow>
             bindA (emit (GetUserProfile uid)) (\<lambda>_.
             bindA (await (ce_getUserProfile env)) (\<lambda>userData.
               proceed (selectForUser env uid userData)))
         | None \<Rightarrow> proceed (selectAnonymous env)))"

subsection \<open>Persisting the user's message, streaming, counting\<close>

text \<open>The tier put into the tool context: read again from the profile when there is a user.\<close>

definition userTierStage :: "'p chat_env \<Rightarrow> string option \<Rightarrow> (string, 'p) act" where
  "userTierStage env user =
     (case user of
        None \<Rightarrow> proceed ''free''
      | Some uid \<Rightarrow>
          bindA (emit (GetUserProfile uid)) (\<lambda>_.
          bindA (await (ce_getUserProfile env)) (\<lambda>userData. proceed (tierOf userData))))"

definition providerOptions :: "'p chat_env \<Rightarrow> 'p chat_request \<Rightarrow> selection \<Rightarrow> provider_options" where
  "providerOptions env req sel =
     (if ce_isDevelopment env \<and> localEnabled req
         \<and> (includesStr (sel_modelInfo sel) ''Ollama'' \<or> includesStr (sel_modelInfo sel) ''LM Studio'')
      then LocalThink (sel_supportsThinking sel)
      else OpenAIReasoning)"

text \<open>
  Modelled from the spec: the persistence layer (\<^verbatim>\<open>@/lib/db\<close>) is not among the
  sources. The spec says the messages of a session form an ordered log that is persisted
  wholesale, with replace-all-by-session semantics, and that persistence failures are
  logged and not fatal. Reading gives the stored messages of the session, or no data when
  the read fails or the session has none; saving replaces the messages of the session, or
  leaves the store as it is when it fails.
\<close>

definition getChatMessages :: "'p chat_env \<Rightarrow> string \<Rightarrow> ('p stored_message list option, 'p) act" where
  "getChatMessages env sessionId =
     bindA (emit (GetChatMessages sessionId)) (\<lambda>_ w.
       (Next (if ce_getChatMessagesFails env then None else cw_sessions w sessionId), w))"

definition saveChatMessages ::
  "'p chat_env \<Rightarrow> string \<Rightarrow> 'p stored_message list \<Rightarrow> (unit, 'p) act" where
  "saveChatMessages env sessionId msgs =
     bindA (emit (SaveChatMessages sessionId)) (\<lambda>_ w.
       (Next (),
        if ce_saveChatMessagesFails env then w
        else w\<lparr>cw_sessions := (cw_sessions w)(sessionId \<mapsto> msgs)\<rparr>))"

text \<open>
  The \<^verbatim>\<open>map\<close> over the messages to save: a content that is a string goes through
  \<^verbatim>\<open>JSON.parse\<close>, which may throw; the first throw ends the map.
\<close>

fun parseContents ::
  "(string \<Rightarrow> thrown + 'p list) \<Rightarrow> 'p stored_message list \<Rightarrow> thrown + 'p stored_message list" where
  "parseContents parse [] = Inr []"
| "parseContents parse (m # ms) =
     (case (case sm_content m of
              ContentParts ps \<Rightarrow> Inr ps
            | ContentString s \<Rightarrow> parse s) of
        Inl e \<Rightarrow> Inl e
      | Inr ps \<Rightarrow>
          (case parseContents parse ms of
             Inl e \<Rightarrow> Inl e
           | Inr rest \<Rightarrow>
               Inr (\<lparr> sm_id = sm_id m, sm_role = sm_role m, sm_content = ContentParts ps \<rparr> # rest)))"

definition userMessageToSave :: "'p chat_env \<Rightarrow> 'p ui_message \<Rightarrow> 'p stored_message" where
  "userMessageToSave env lastMessage =
     \<lparr> sm_id = ce_randomUUID env,
       sm_role = ''user'',
       sm_content = ContentParts (case msg_parts lastMessage of None \<Rightarrow> [] | Some ps \<Rightarrow> ps) \<rparr>"

text \<open>
  The block "Save user message immediately (before streaming starts)": entered when
  there is a user, a session identifier and at least one message, and the last message
  has the role \<^verbatim>\<open>user\<close>.
\<close>

definition saveUserMessage ::
  "'p chat_env \<Rightarrow> string option \<Rightarrow> 'p chat_body \<Rightarrow> (unit, 'p) act" where
  "saveUserMessage env user body =
     (case user of
        None \<Rightarrow> proceed ()
      | Some uid \<Rightarrow>
          if truthy (cb_sessionId body) \<and> length (cb_messages body) > 0 then
            (let sessionId = orElse (cb_sessionId body) [];
                 lastMessage = last (cb_messages body)
             in if msg_role lastMessage = ''user'' then
                  bindA (getChatMessages env sessionId) (\<lambda>existingMessages.
                  bindA (await (parseContents (ce_jsonParse env)
                                  ((case existingMessages of None \<Rightarrow> [] | Some ms \<Rightarrow> ms)
                                   @ [userMessageToSave env lastMessage]))) (\<lambda>allMessages.
                  bindA (saveChatMessages env sessionId allMessages) (\<lambda>_.
                  bindA (emit (UpdateChatSession sessionId uid)) (\<lambda>_.
                    awaitVoid (ce_updateChatSession env)))))
                else proceed ())
          else proceed ())"

text \<open>
  The call of \<^verbatim>\<open>streamText\<close> with the selected model, where generation begins, and
  the construction of the streaming response; either may throw.
\<close>

definition streamTextStage ::
  "'p chat_env \<Rightarrow> 'p chat_request \<Rightarrow> selection \<Rightarrow> (unit, 'p) act" where
  "streamTextStage env req sel =
     bindA (emit (StreamText (sel_model sel) (providerOptions env req sel))) (\<lambda>_.
       awaitVoid (ce_streamText env))"

text \<open>
  The increment, made for user-initiated requests outside development mode, on the server
  for an authenticated user only; what it throws is caught and logged.
\<close>

definition incrementStage ::
  "'p chat_env \<Rightarrow> string option \<Rightarrow> 'p ui_message list \<Rightarrow> (unit, 'p) act" where
  "incrementStage env user messages =
     (if isUserInitiated messages \<and> \<not> ce_isDevelopment env then
        (case user of
           Some uid \<Rightarrow>
             bindA (emit (IncrementRateLimit uid)) (\<lambda>_.
               case ce_incrementRateLimit env of
                 Some err \<Rightarrow> proceed ()
               | None \<Rightarrow> proceed ())
         | None \<Rightarrow> proceed ())
      else proceed ())"

definition streamHeaders :: "'p chat_env \<Rightarrow> (string \<times> string) list" where
  "streamHeaders env =
     (if ce_isDevelopment env
      then [(''X-Development-Mode'', ''true''), (''X-RateLimit-Limit'', ''unlimited''),
            (''X-RateLimit-Remaining'', ''unlimited'')]
      else [])
     @ [(''Connection'', ''keep-alive''), (''X-Accel-Buffering'', ''no''),
        (''Cache-Control'', ''no-cache, no-transform'')]"

text \<open>The \<^verbatim>\<open>catch\<close> of the handler: the thrown value becomes a JSON error response.\<close>

definition errorMessageOf :: "thrown \<Rightarrow> string" where
  "errorMessageOf err =
     (case err of
        ErrorObj m \<Rightarrow> m
      | ThrownString s \<Rightarrow> s
      | ThrownOther \<Rightarrow> ''An unexpected error occurred'')"

definition errorResponse :: "thrown \<Rightarrow> response" where
  "errorResponse err =
     (let errorMessage = errorMessageOf err;
          isToolError = (includesStr (toLowerCase errorMessage) ''tool''
                         \<or> includesStr (toLowerCase errorMessage) ''function'');
          isThinkingError = includesStr (toLowerCase errorMessage) ''thinking''
      in if isToolError \<or> isThinkingError then
           JsonResponse 400
             \<lparr> eb_error = ''MODEL_COMPATIBILITY_ERROR'',
               eb_message = errorMessage,
               eb_fields =
                 [(''compatibilityIssue'', Str (if isToolError then ''tools'' else ''thinking''))] \<rparr>
             jsonHeaders
         else
           JsonResponse 500
             \<lparr> eb_error = ''CHAT_ERROR'',
               eb_message = errorMessage,
               eb_fields =
                 (case err of
                    ErrorObj m \<Rightarrow> [(''details'', StackOfError)]
                  | ThrownString s \<Rightarrow> []
                  | ThrownOther \<Rightarrow> []) \<rparr>
             jsonHeaders)"

text \<open>The body of the \<^verbatim>\<open>try\<close> of the handler, in the order of the source.\<close>

definition handler :: "'p chat_env \<Rightarrow> 'p chat_request \<Rightarrow> (response, 'p) act" where
  "handler env req =
     bindA (await (rq_json req)) (\<lambda>body.
     bindA (await (ce_getUser env)) (\<lambda>user.
     bindA (createClients env) (\<lambda>_.
     bindA (accessStage env user) (\<lambda>_.
     bindA (rateLimitStage env user (cb_messages body)) (\<lambda>_.
     bindA (gatewayKeyStage env) (\<lambda>_.
     bindA (selectProvider env req user) (\<lambda>sel.
     bindA (userTierStage env user) (\<lambda>userTier.
     bindA (saveUserMessage env user body) (\<lambda>_.
     bindA (streamTextStage env req sel) (\<lambda>_.
     bindA (incrementStage env user (cb_messages body)) (\<lambda>_.
       proceed (StreamResponse (streamHeaders env)))))))))))))"

text \<open>\<^verbatim>\<open>POST\<close>: the response, and the state the handler leaves behind.\<close>

definition POST :: "'p chat_env \<Rightarrow> 'p chat_request \<Rightarrow> 'p chat_world \<Rightarrow> response \<times> 'p chat_world" where
  "POST env req w =
     (case handler env req w of
        (Next r, w') \<Rightarrow> (r, w')
      | (Return r, w') \<Rightarrow> (r, w')
      | (Throw e, w') \<Rightarrow> (errorResponse e, w'))"

section \<open>Notions used in the statements and the proofs\<close>

text \<open>The events that are calls of \<^verbatim>\<open>sandbox.delete()\<close>.\<close>

fun isSandboxDelete :: "tool_event \<Rightarrow> bool" where
  "isSandboxDelete (SandboxDelete sb) = True"
| "isSandboxDelete ev = False"

text \<open>
  The variables whose absence \<^verbatim>\<open>validatePaymentEnvironment\<close> reports as an error
  outside development mode: the Supabase keys, the Polar tokens and the AI Gateway key.
\<close>

definition requiredInProduction :: "string list" where
  "requiredInProduction =
     [''NEXT_PUBLIC_SUPABASE_URL'', ''NEXT_PUBLIC_SUPABASE_ANON_KEY'', ''SUPABASE_SERVICE_ROLE_KEY'',
      ''POLAR_ACCESS_TOKEN'', ''POLAR_WEBHOOK_SECRET'', ''POLAR_UNLIMITED_PRODUCT_ID'',
      ''POLAR_PAY_PER_USE_PRODUCT_ID'', ''AI_GATEWAY_API_KEY'']"

text \<open>
  The pairing of error codes and HTTP statuses in the words of the spec: "error responses
  use JSON bodies with an error code (PAYMENT_REQUIRED, RATE_LIMIT_EXCEEDED,
  MODEL_COMPATIBILITY_ERROR, CHAT_ERROR) and matching HTTP status (402, 429, 400, 500)".
\<close>

definition specStatus :: "string \<Rightarrow> nat option" where
  "specStatus code =
     (if code = ''PAYMENT_REQUIRED'' then Some 402
      else if code = ''RATE_LIMIT_EXCEEDED'' then Some 429
      else if code = ''MODEL_COMPATIBILITY_ERROR'' then Some 400
      else if code = ''CHAT_ERROR'' then Some 500
      else None)"

text \<open>The JSON responses whose status is the one the spec pairs with their code.\<close>

fun matchesSpecStatus :: "response \<Rightarrow> bool" where
  "matchesSpecStatus (JsonResponse status body headers) = (specStatus (eb_error body) = Some status)"
| "matchesSpecStatus (StreamResponse headers) = False"

text \<open>
  A step \<open>returnsOnly P\<close> when every response it returns at once satisfies \<open>P\<close>.
\<close>

definition returnsOnly :: "(response \<Rightarrow> bool) \<Rightarrow> ('a, 'p) act \<Rightarrow> bool" where
  "returnsOnly P m = (\<forall>w. case fst (m w) of Return r \<Rightarrow> P r | Next x \<Rightarrow> True | Throw e \<Rightarrow> True)"

text \<open>
  The calls of the rate limiter (a check or an increment) and the calls of
  \<^verbatim>\<open>streamText\<close> among the events.
\<close>

fun isRateLimitCall :: "chat_event \<Rightarrow> bool" where
  "isRateLimitCall CheckAnonymousRateLimit = True"
| "isRateLimitCall (CheckUserRateLimit uid) = True"
| "isRateLimitCall (IncrementRateLimit uid) = True"
| "isRateLimitCall ev = False"

fun isStreamText :: "chat_event \<Rightarrow> bool" where
  "isStreamText (StreamText m opts) = True"
| "isStreamText ev = False"

text \<open>
  A step leaves \<open>f\<close> \<open>unchanged\<close> when the state after it has the same \<open>f\<close> as the state
  before, whatever the outcome of the step.
\<close>

definition unchanged :: "('p chat_world \<Rightarrow> 'b) \<Rightarrow> ('a, 'p) act \<Rightarrow> bool" where
  "unchanged f m = (\<forall>w. f (snd (m w)) = f w)"

text \<open>
  The handler in two phases, once the body and the user are known: the steps up to and
  including the saving of the user's message, which yield the selection, and the steps
  from the call of \<^verbatim>\<open>streamText\<close> on.
\<close>

definition beforeStreaming ::
  "'p chat_env \<Rightarrow> 'p chat_request \<Rightarrow> string option \<Rightarrow> 'p chat_body \<Rightarrow> (selection, 'p) act" where
  "beforeStreaming env req user body =
     bindA (createClients env) (\<lambda>_.
     bindA (accessStage env user) (\<lambda>_.
     bindA (rateLimitStage env user (cb_messages body)) (\<lambda>_.
     bindA (gatewayKeyStage env) (\<lambda>_.
     bindA (selectProvider env req user) (\<lambda>sel.
     bindA (userTierStage env user) (\<lambda>userTier.
     bindA (saveUserMessage env user body) (\<lambda>_.
       proceed sel)))))))"

definition fromStreaming ::
  "'p chat_env \<Rightarrow> 'p chat_request \<Rightarrow> string option \<Rightarrow> 'p chat_body \<Rightarrow> selection \<Rightarrow> (response, 'p) act" where
  "fromStreaming env req user body sel =
     bindA (streamTextStage env req sel) (\<lambda>_.
     bindA (incrementStage env user (cb_messages body)) (\<lambda>_.
       proceed (StreamResponse (streamHeaders env))))"

text \<open>
  The texts a payload holds when the result records are patent numbers: its four string
  fields and its results.
\<close>

definition payloadTexts :: "string patent_payload \<Rightarrow> string list" where
  "payloadTexts p = [pp_type p, pp_query p, pp_favicon p, pp_displaySource p] @ pp_results p"

section \<open>Concrete inputs\<close>

text \<open>Inputs at which the theorems below are instantiated: for the tools,\<close>

definition exampleContext :: tool_context where
  "exampleContext =
     \<lparr> ctx_userId = Some ''user-1'', ctx_sessionId = Some ''session-1'',
       ctx_userTier = Some ''free'' \<rparr>"

definition raggedTable :: csv_input where
  "raggedTable =
     \<lparr> in_title = ''Ragged'', in_description = None,
       in_headers = [''A'', ''B''], in_rows = [ [''1'', ''2''], [''3''] ] \<rparr>"

definition exampleTable :: csv_input where
  "exampleTable =
     \<lparr> in_title = ''Example'', in_description = None,
       in_headers = [''A'', ''B''], in_rows = [ [''1'', ''2''] ] \<rparr>"

definition exampleOutput :: csv_output where
  "exampleOutput =
     \<lparr> out_title = ''Example'', out_description = None,
       out_headers = [''A'', ''B''], out_rows = [ [''1'', ''2''] ],
       out_csvContent = ''A,B'' @ [newline] @ ''1,2'',
       out_rowCount = 1, out_columnCount = 2,
       out_csvId = Some ''id-1'', out_csvUrl = Some ''/api/csvs/id-1'',
       out_instructions = Some (csvInstructions ''id-1'') \<rparr>"

text \<open>A sandbox service in which the run of the code throws.\<close>

definition exampleSandboxWorld :: sandbox_world where
  "exampleSandboxWorld =
     \<lparr> sw_create = Inr 7,
       sw_codeRun = (\<lambda>code. Inl (ErrorObj ''connection reset'')),
       sw_executionTime = 12,
       sw_track = None, sw_polar = None, sw_delete = None \<rparr>"

definition exampleCode :: code_input where
  "exampleCode = \<lparr> ci_code = ''print(1)'', ci_description = None \<rparr>"

text \<open>A search service that knows one patent.\<close>

definition exampleValyuWorld :: "(string, nat) valyu_world" where
  "exampleValyuWorld =
     \<lparr> vw_search =
         (\<lambda>q n. Inr (Some \<lparr> sr_results = Some [''US11234567''],
                              sr_total_deduction_dollars = None \<rparr>)),
       vw_track = None, vw_polar = None \<rparr>"

definition exampleQuery :: patent_input where
  "exampleQuery = \<lparr> pa_query = ''US11234567'', pa_maxResults = 5 \<rparr>"

text \<open>A search service that finds nothing, and a query for a patent it does not know.\<close>

definition emptyValyuWorld :: "(string, nat) valyu_world" where
  "emptyValyuWorld =
     \<lparr> vw_search =
         (\<lambda>q n. Inr (Some \<lparr> sr_results = Some [], sr_total_deduction_dollars = None \<rparr>)),
       vw_track = None, vw_polar = None \<rparr>"

definition unknownQuery :: patent_input where
  "unknownQuery = \<lparr> pa_query = ''US99999999'', pa_maxResults = 5 \<rparr>"

text \<open>for the environment validation,\<close>

definition productionWithoutKeys :: process_env where
  "productionWithoutKeys = [''NEXT_PUBLIC_APP_MODE'' \<mapsto> ''production'']"

definition developmentWithoutKeys :: process_env where
  "developmentWithoutKeys = [''NEXT_PUBLIC_APP_MODE'' \<mapsto> ''development'']"

text \<open>and for the chat endpoint.\<close>

text \<open>
  A production environment in which every call succeeds, for a signed-in user; requests
  with one user message and with a follow-up user message; a state with no calls made and
  no sessions stored.
\<close>

definition exampleEnv :: "string chat_env" where
  "exampleEnv =
     \<lparr> ce_isDevelopment = False,
       ce_getUser = Inr (Some ''user-1''),
       ce_createClient = None,
       ce_validateAccess =
         Inr \<lparr> av_hasAccess = True, av_requiresPaymentSetup = False, av_tier = ''free'' \<rparr>,
       ce_checkAnonymousRateLimit =
         Inr \<lparr> rl_allowed = True, rl_remaining = 4, rl_resetTime = ''2026-01-01T00:00:00.000Z'',
               rl_limit = 5, rl_tier = ''anonymous'' \<rparr>,
       ce_checkUserRateLimit =
         Inr \<lparr> rl_allowed = True, rl_remaining = 4, rl_resetTime = ''2026-01-01T00:00:00.000Z'',
               rl_limit = 5, rl_tier = ''free'' \<rparr>,
       ce_incrementRateLimit = None,
       ce_hasGatewayKey = True,
       ce_hasOpenAIKey = False,
       ce_ollamaBaseUrl = None,
       ce_lmstudioBaseUrl = None,
       ce_probe = ProbeThrows (ErrorObj ''fetch failed''),
       ce_getUserProfile = Inr None,
       ce_randomUUID = ''uuid-1'',
       ce_getChatMessagesFails = False,
       ce_jsonParse = (\<lambda>s. Inr []),
       ce_saveChatMessagesFails = False,
       ce_updateChatSession = None,
       ce_streamText = None \<rparr>"

definition userMsg :: "string \<Rightarrow> string \<Rightarrow> string ui_message" where
  "userMsg i t = \<lparr> msg_id = i, msg_role = ''user'', msg_parts = Some [t] \<rparr>"

definition assistantMsg :: "string \<Rightarrow> string \<Rightarrow> string ui_message" where
  "assistantMsg i t = \<lparr> msg_id = i, msg_role = ''assistant'', msg_parts = Some [t] \<rparr>"

definition firstTurnBody :: "string chat_body" where
  "firstTurnBody =
     \<lparr> cb_messages = [userMsg ''m1'' ''question''], cb_sessionId = Some ''session-1'' \<rparr>"

definition secondTurnBody :: "string chat_body" where
  "secondTurnBody =
     \<lparr> cb_messages = [userMsg ''m1'' ''question'', assistantMsg ''m2'' ''answer'',
                      userMsg ''m3'' ''follow-up''],
       cb_sessionId = Some ''session-1'' \<rparr>"

definition firstTurn :: "string chat_request" where
  "firstTurn =
     \<lparr> rq_json = Inr firstTurnBody,
       rq_ollama_enabled = None, rq_local_provider = None, rq_ollama_model = None \<rparr>"

definition secondTurn :: "string chat_request" where
  "secondTurn =
     \<lparr> rq_json = Inr secondTurnBody,
       rq_ollama_enabled = None, rq_local_provider = None, rq_ollama_model = None \<rparr>"

definition emptyWorld :: "string chat_world" where
  "emptyWorld = \<lparr> cw_events = [], cw_sessions = Map.empty \<rparr>"

text \<open>Variations of that environment, one for each way the handler can fail.\<close>

definition paymentEnv :: "string chat_env" where
  "paymentEnv =
     exampleEnv\<lparr>ce_validateAccess :=
       Inr \<lparr> av_hasAccess = False, av_requiresPaymentSetup = True, av_tier = ''free'' \<rparr>\<rparr>"

definition limitedEnv :: "string chat_env" where
  "limitedEnv =
     exampleEnv\<lparr>ce_checkUserRateLimit :=
       Inr \<lparr> rl_allowed = False, rl_remaining = 0, rl_resetTime = ''2026-01-01T00:00:00.000Z'',
             rl_limit = 5, rl_tier = ''free'' \<rparr>\<rparr>"

definition toolErrorEnv :: "string chat_env" where
  "toolErrorEnv = exampleEnv\<lparr>ce_streamText := Some (ErrorObj ''This model does not support Tools'')\<rparr>"

definition brokenStreamEnv :: "string chat_env" where
  "brokenStreamEnv = exampleEnv\<lparr>ce_streamText := Some (ErrorObj ''socket hang up'')\<rparr>"

text \<open>Development mode with the OpenAI key only, and no local server to reach.\<close>

definition developmentEnv :: "string chat_env" where
  "developmentEnv =
     exampleEnv\<lparr>ce_isDevelopment := True, ce_hasGatewayKey := False, ce_hasOpenAIKey := True\<rparr>"

text \<open>
  The same production environment for a visitor who is not signed in, and with a store
  whose save fails; a first turn without a session identifier.
\<close>

definition anonymousEnv :: "string chat_env" where
  "anonymousEnv = exampleEnv\<lparr>ce_getUser := Inr None\<rparr>"

definition failingSaveEnv :: "string chat_env" where
  "failingSaveEnv = exampleEnv\<lparr>ce_saveChatMessagesFails := True\<rparr>"

definition noSessionBody :: "string chat_body" where
  "noSessionBody = \<lparr> cb_messages = [userMsg ''m1'' ''question''], cb_sessionId = None \<rparr>"

definition noSessionTurn :: "string chat_request" where
  "noSessionTurn =
     \<lparr> rq_json = Inr noSessionBody,
       rq_ollama_enabled = None, rq_local_provider = None, rq_ollama_model = None \<rparr>"

section \<open>Properties of createCSV\<close>

lemma includesStr_single: "includesStr s [c] \<longleftrightarrow> c \<in> set s"
  by (induction s) auto

text \<open>
  Claim C4. When some row of a \<^verbatim>\<open>createCSV\<close> call has a length other than the number
  of headers, the call returns the structured validation error (with the expected column
  count and the number of offending rows) and the store is the one it started with,
  whatever \<^verbatim>\<open>db.createCSV\<close> would have done: nothing is persisted.
\<close>

theorem createCSV_rejects_mismatch:
  assumes "\<exists>row \<in> set (in_rows inp). length row \<noteq> length (in_headers inp)"
  shows "createCSV dbCreateCSV uuid trackError inp ctx db =
     (CsvValidationError
        (validationMessage (length (in_headers inp))
           (length (filter (\<lambda>row. length row \<noteq> length (in_headers inp)) (in_rows inp))))
        (in_title inp) (in_headers inp) (length (in_headers inp))
        (length (filter (\<lambda>row. length row \<noteq> length (in_headers inp)) (in_rows inp))),
      db)"
proof -
  from assms have "filter (\<lambda>row. length row \<noteq> length (in_headers inp)) (in_rows inp) \<noteq> []"
    by (simp add: filter_empty_conv)
  then show ?thesis
    by (simp add: createCSV_def Let_def)
qed

theorem createCSV_rejects_mismatch_witness:
  "(\<exists>row \<in> set (in_rows raggedTable). length row \<noteq> length (in_headers raggedTable))
   \<and> createCSV db_createCSV ''id-1'' None raggedTable exampleContext Map.empty =
     (CsvValidationError (validationMessage 2 1) ''Ragged'' [''A'', ''B''] 2 1, Map.empty)"
proof -
  have h: "\<exists>row \<in> set (in_rows raggedTable). length row \<noteq> length (in_headers raggedTable)"
    by (simp add: raggedTable_def)
  from createCSV_rejects_mismatch [OF h, of db_createCSV "''id-1''" None exampleContext Map.empty]
  show ?thesis using h by (simp add: raggedTable_def numeral_2_eq_2)
qed

text \<open>
  Claim C8. A CSV created with the headers A, B and the single row 1, 2 has the content
  \<^verbatim>\<open>A,B\n1,2\<close>; the call returns the identifier it drew, and the store answers that
  identifier with the same headers and rows, which serialize to the same content. The
  store is the one modelled from the spec, and the analytics call does not throw.
\<close>

theorem createCSV_roundtrip:
  assumes "uuid \<noteq> []"
  shows "\<exists>out store'.
      createCSV db_createCSV uuid None
        \<lparr> in_title = t, in_description = d, in_headers = [''A'', ''B''],
          in_rows = [ [''1'', ''2''] ] \<rparr>
        ctx store = (CsvCreated out, store')
      \<and> out_csvContent out = ''A,B'' @ [newline] @ ''1,2''
      \<and> out_csvId out = Some uuid
      \<and> (\<exists>r. db_getCSV store' uuid = Some r \<and> ins_headers r = [''A'', ''B'']
            \<and> ins_rows r = [ [''1'', ''2''] ]
            \<and> csvContent (ins_headers r) (ins_rows r) = out_csvContent out)"
  using assms
  by (simp add: createCSV_def Let_def db_createCSV_def db_getCSV_def insertData_def csvContent_def
       escapeCell_def orUndefined_def comma_def dquote_def newline_def)

theorem createCSV_roundtrip_witness:
  "''id-1'' \<noteq> [] \<and>
   (\<exists>out store'.
      createCSV db_createCSV ''id-1'' None
        \<lparr> in_title = ''Example'', in_description = None, in_headers = [''A'', ''B''],
          in_rows = [ [''1'', ''2''] ] \<rparr>
        exampleContext Map.empty = (CsvCreated out, store')
      \<and> out_csvContent out = ''A,B'' @ [newline] @ ''1,2''
      \<and> out_csvId out = Some ''id-1''
      \<and> (\<exists>r. db_getCSV store' ''id-1'' = Some r \<and> ins_headers r = [''A'', ''B'']
            \<and> ins_rows r = [ [''1'', ''2''] ]
            \<and> csvContent (ins_headers r) (ins_rows r) = out_csvContent out))"
proof -
  have h: "''id-1'' \<noteq> []" by simp
  from createCSV_roundtrip [OF h, of "''Example''" None exampleContext Map.empty]
  show ?thesis using h by blast
qed

lemma replaceQuotes_Nil: "replaceQuotes [] = []"
  by (simp add: replaceQuotes_def)

lemma replaceQuotes_Cons:
  "replaceQuotes (x # xs) = (if x = dquote then [dquote, dquote] else [x]) @ replaceQuotes xs"
  by (simp add: replaceQuotes_def)

lemma replaceQuotes_cancel:
  assumes "replaceQuotes c1 @ dquote # s1 = replaceQuotes c2 @ dquote # s2"
    and "s1 = [] \<or> hd s1 \<noteq> dquote" and "s2 = [] \<or> hd s2 \<noteq> dquote"
  shows "c1 = c2 \<and> s1 = s2"
  using assms
proof (induction c1 arbitrary: c2)
  case Nil
  then show ?case
    by (cases c2) (auto simp: replaceQuotes_Nil replaceQuotes_Cons split: if_splits)
next
  case (Cons x xs)
  show ?case
  proof (cases c2)
    case Nil
    with Cons.prems show ?thesis
      by (auto simp: replaceQuotes_Nil replaceQuotes_Cons split: if_splits)
  next
    case (Cons y ys)
    with Cons.prems have "x = y" and "replaceQuotes xs @ dquote # s1 = replaceQuotes ys @ dquote # s2"
      by (auto simp: replaceQuotes_Cons split: if_splits)
    with Cons.IH [of ys] Cons.prems(2,3) \<open>c2 = y # ys\<close> show ?thesis by simp
  qed
qed

lemma plain_cancel:
  assumes "c1 @ s1 = c2 @ s2"
    and "comma \<notin> set c1" "newline \<notin> set c1" "comma \<notin> set c2" "newline \<notin> set c2"
    and "s1 = [] \<or> hd s1 = comma \<or> hd s1 = newline"
    and "s2 = [] \<or> hd s2 = comma \<or> hd s2 = newline"
  shows "c1 = c2 \<and> s1 = s2"
  using assms
proof (induction c1 arbitrary: c2)
  case Nil
  then show ?case by (cases c2) auto
next
  case (Cons x xs)
  then show ?case by (cases c2) auto
qed

lemma escapeCell_cancel:
  assumes eq: "escapeCell c1 @ s1 = escapeCell c2 @ s2"
    and t1: "s1 = [] \<or> hd s1 = comma \<or> hd s1 = newline"
    and t2: "s2 = [] \<or> hd s2 = comma \<or> hd s2 = newline"
  shows "c1 = c2 \<and> s1 = s2"
proof -
  have ne: "comma \<noteq> dquote" "newline \<noteq> dquote"
    by (simp_all add: comma_def dquote_def newline_def)
  let ?sp = "\<lambda>c. comma \<in> set c \<or> dquote \<in> set c \<or> newline \<in> set c"
  have esc: "\<And>c. escapeCell c = (if ?sp c then dquote # replaceQuotes c @ [dquote] else c)"
    by (simp add: escapeCell_def includesStr_single)
  consider (qq) "?sp c1" "?sp c2" | (qp) "?sp c1" "\<not> ?sp c2" | (pq) "\<not> ?sp c1" "?sp c2"
    | (pp) "\<not> ?sp c1" "\<not> ?sp c2" by blast
  then show ?thesis
  proof cases
    case qq
    with eq have "replaceQuotes c1 @ dquote # s1 = replaceQuotes c2 @ dquote # s2"
      by (simp add: esc)
    moreover from t1 ne have "s1 = [] \<or> hd s1 \<noteq> dquote" by auto
    moreover from t2 ne have "s2 = [] \<or> hd s2 \<noteq> dquote" by auto
    ultimately show ?thesis by (rule replaceQuotes_cancel)
  next
    case qp
    with eq have "dquote # replaceQuotes c1 @ dquote # s1 = c2 @ s2" by (simp add: esc)
    with qp(2) t2 ne show ?thesis by (cases c2; cases s2) auto
  next
    case pq
    with eq have "c1 @ s1 = dquote # replaceQuotes c2 @ dquote # s2" by (simp add: esc)
    with pq(1) t1 ne show ?thesis by (cases c1; cases s1) auto
  next
    case pp
    with eq have "c1 @ s1 = c2 @ s2" by (simp add: esc)
    with pp t1 t2 show ?thesis by (intro plain_cancel) auto
  qed
qed

lemma join_Cons: "join (x # xs) sep = x @ (if xs = [] then [] else sep @ join xs sep)"
  by (cases xs) simp_all

lemma rowLine_cancel:
  assumes "length r1 = length r2"
    and "join (map escapeCell r1) [comma] @ t1 = join (map escapeCell r2) [comma] @ t2"
    and "t1 = [] \<or> hd t1 = newline" and "t2 = [] \<or> hd t2 = newline"
  shows "r1 = r2 \<and> t1 = t2"
  using assms
proof (induction r1 arbitrary: r2)
  case Nil
  then show ?case by simp
next
  case (Cons c cs)
  then obtain d ds where r2: "r2 = d # ds" and len: "length cs = length ds"
    by (cases r2) auto
  let ?s1 = "(if cs = [] then [] else [comma] @ join (map escapeCell cs) [comma]) @ t1"
  let ?s2 = "(if ds = [] then [] else [comma] @ join (map escapeCell ds) [comma]) @ t2"
  from Cons.prems(2) r2 have eq: "escapeCell c @ ?s1 = escapeCell d @ ?s2"
    by (simp add: join_Cons)
  have "?s1 = [] \<or> hd ?s1 = comma \<or> hd ?s1 = newline" using Cons.prems(3) by auto
  moreover have "?s2 = [] \<or> hd ?s2 = comma \<or> hd ?s2 = newline" using Cons.prems(4) by auto
  ultimately have cd: "c = d" and rest: "?s1 = ?s2"
    using escapeCell_cancel [OF eq] by blast+
  show ?case
  proof (cases "cs = []")
    case True
    with len rest r2 cd show ?thesis by simp
  next
    case False
    with len have "ds \<noteq> []" by auto
    with False rest
    have "join (map escapeCell cs) [comma] @ t1 = join (map escapeCell ds) [comma] @ t2"
      by simp
    from Cons.IH [OF len this Cons.prems(3,4)] cd r2 show ?thesis by simp
  qed
qed

lemma join_lines: "join (x # xs) [newline] = x @ concat (map (\<lambda>l. newline # l) xs)"
  by (induction xs arbitrary: x) (simp_all add: join_Cons)

lemma csvContent_lines:
  "csvContent hs rows =
     join hs [comma] @ concat (map (\<lambda>row. newline # join (map escapeCell row) [comma]) rows)"
  by (simp add: csvContent_def join_lines comp_def)

lemma rows_cancel:
  assumes "\<forall>r \<in> set rows1. length r = n" and "\<forall>r \<in> set rows2. length r = n"
    and "concat (map (\<lambda>row. newline # join (map escapeCell row) [comma]) rows1)
         = concat (map (\<lambda>row. newline # join (map escapeCell row) [comma]) rows2)"
  shows "rows1 = rows2"
  using assms
proof (induction rows1 arbitrary: rows2)
  case Nil
  then show ?case by (cases rows2) auto
next
  case (Cons r rs)
  then obtain r' rs' where rows2: "rows2 = r' # rs'"
    by (cases rows2) auto
  let ?t1 = "concat (map (\<lambda>row. newline # join (map escapeCell row) [comma]) rs)"
  let ?t2 = "concat (map (\<lambda>row. newline # join (map escapeCell row) [comma]) rs')"
  from Cons.prems rows2 have len: "length r = length r'" by simp
  from Cons.prems(3) rows2
  have eq: "join (map escapeCell r) [comma] @ ?t1 = join (map escapeCell r') [comma] @ ?t2"
    by simp
  have "?t1 = [] \<or> hd ?t1 = newline" by (cases rs) auto
  moreover have "?t2 = [] \<or> hd ?t2 = newline" by (cases rs') auto
  ultimately have "r = r'" and "?t1 = ?t2"
    using rowLine_cancel [OF len eq] by blast+
  with Cons.IH [of rs'] Cons.prems(1,2) rows2 show ?case by simp
qed

lemma createCSV_created:
  assumes "createCSV f uuid trackError inp ctx db = (CsvCreated out, db')"
  shows "(\<forall>r \<in> set (in_rows inp). length r = length (in_headers inp))
         \<and> out_csvContent out = csvContent (in_headers inp) (in_rows inp)"
proof -
  have "filter (\<lambda>row. length row \<noteq> length (in_headers inp)) (in_rows inp) = []"
  proof (rule ccontr)
    assume "filter (\<lambda>row. length row \<noteq> length (in_headers inp)) (in_rows inp) \<noteq> []"
    with assms show False by (simp add: createCSV_def Let_def)
  qed
  then have valid: "\<forall>r \<in> set (in_rows inp). length r = length (in_headers inp)"
    by (simp add: filter_empty_conv)
  from assms \<open>filter _ _ = []\<close> have "out_csvContent out = csvContent (in_headers inp) (in_rows inp)"
    by (auto simp: createCSV_def Let_def split: sum.splits option.splits prod.splits)
  with valid show ?thesis by simp
qed

text \<open>
  Claim C10. A cell that contains a comma, a double quote or a newline is written
  between double quotes with every double quote of the cell doubled; any other cell is
  written as it is. The line of a row determines the row among the rows of the same
  length, and, since a call that succeeds has only rows as long as the headers, two
  successful calls with the same headers and the same content had the same rows. (The
  cells are those of the data rows; the header names are joined as they are.)
\<close>

theorem csv_escaping_injective:
  "(comma \<in> set cell \<or> dquote \<in> set cell \<or> newline \<in> set cell \<longrightarrow>
      escapeCell cell
        = [dquote] @ concat (map (\<lambda>c. if c = dquote then [dquote, dquote] else [c]) cell) @ [dquote])
   \<and> (comma \<notin> set plain \<and> dquote \<notin> set plain \<and> newline \<notin> set plain \<longrightarrow>
        escapeCell plain = plain)
   \<and> (length r1 = length r2
        \<and> join (map escapeCell r1) [comma] = join (map escapeCell r2) [comma] \<longrightarrow> r1 = r2)
   \<and> (createCSV f1 u1 e1 inp1 ctx1 db1 = (CsvCreated out1, db1')
        \<and> createCSV f2 u2 e2 inp2 ctx2 db2 = (CsvCreated out2, db2')
        \<and> in_headers inp1 = in_headers inp2
        \<and> out_csvContent out1 = out_csvContent out2 \<longrightarrow> in_rows inp1 = in_rows inp2)"
proof (intro conjI impI)
  assume "comma \<in> set cell \<or> dquote \<in> set cell \<or> newline \<in> set cell"
  then show "escapeCell cell
        = [dquote] @ concat (map (\<lambda>c. if c = dquote then [dquote, dquote] else [c]) cell) @ [dquote]"
    by (simp add: escapeCell_def includesStr_single replaceQuotes_def)
next
  assume "comma \<notin> set plain \<and> dquote \<notin> set plain \<and> newline \<notin> set plain"
  then show "escapeCell plain = plain"
    by (simp add: escapeCell_def includesStr_single)
next
  assume "length r1 = length r2
        \<and> join (map escapeCell r1) [comma] = join (map escapeCell r2) [comma]"
  then show "r1 = r2"
    using rowLine_cancel [of r1 r2 "[]" "[]"] by simp
next
  assume a: "createCSV f1 u1 e1 inp1 ctx1 db1 = (CsvCreated out1, db1')
        \<and> createCSV f2 u2 e2 inp2 ctx2 db2 = (CsvCreated out2, db2')
        \<and> in_headers inp1 = in_headers inp2
        \<and> out_csvContent out1 = out_csvContent out2"
  from a have k1: "createCSV f1 u1 e1 inp1 ctx1 db1 = (CsvCreated out1, db1')"
    and k2: "createCSV f2 u2 e2 inp2 ctx2 db2 = (CsvCreated out2, db2')"
    and hs: "in_headers inp2 = in_headers inp1"
    and eq: "out_csvContent out1 = out_csvContent out2" by simp_all
  from createCSV_created [OF k1]
  have v1: "\<forall>r \<in> set (in_rows inp1). length r = length (in_headers inp1)"
    and c1: "out_csvContent out1 = csvContent (in_headers inp1) (in_rows inp1)" by simp_all
  from createCSV_created [OF k2]
  have v2: "\<forall>r \<in> set (in_rows inp2). length r = length (in_headers inp1)"
    and c2: "out_csvContent out2 = csvContent (in_headers inp1) (in_rows inp2)"
    by (simp_all add: hs)
  from eq have "csvContent (in_headers inp1) (in_rows inp1)
      = csvContent (in_headers inp1) (in_rows inp2)" by (simp only: c1 c2)
  then have "concat (map (\<lambda>row. newline # join (map escapeCell row) [comma]) (in_rows inp1))
         = concat (map (\<lambda>row. newline # join (map escapeCell row) [comma]) (in_rows inp2))"
    by (simp add: csvContent_lines)
  with v1 v2 show "in_rows inp1 = in_rows inp2" by (rule rows_cancel)
qed

theorem csv_escaping_injective_witness:
  "(comma \<in> set ''a,b'' \<or> dquote \<in> set ''a,b'' \<or> newline \<in> set ''a,b'')
   \<and> escapeCell ''a,b'' = [dquote] @ ''a,b'' @ [dquote]
   \<and> (comma \<notin> set ''ab'' \<and> dquote \<notin> set ''ab'' \<and> newline \<notin> set ''ab'')
   \<and> escapeCell ''ab'' = ''ab''
   \<and> length [''1'', ''2''] = length [''1'', ''2'']
   \<and> createCSV db_createCSV ''id-1'' None exampleTable exampleContext Map.empty
       = (CsvCreated exampleOutput, [''id-1'' \<mapsto> insertData ''id-1'' exampleTable exampleContext])
   \<and> in_rows exampleTable = [ [''1'', ''2''] ]"
proof -
  have special: "comma \<in> set ''a,b'' \<or> dquote \<in> set ''a,b'' \<or> newline \<in> set ''a,b''"
    by (simp add: comma_def)
  have plain: "comma \<notin> set ''ab'' \<and> dquote \<notin> set ''ab'' \<and> newline \<notin> set ''ab''"
    by (simp add: comma_def dquote_def newline_def)
  have created: "createCSV db_createCSV ''id-1'' None exampleTable exampleContext Map.empty
       = (CsvCreated exampleOutput, [''id-1'' \<mapsto> insertData ''id-1'' exampleTable exampleContext])"
    by (simp add: createCSV_def Let_def db_createCSV_def exampleTable_def exampleOutput_def
         insertData_def csvContent_def escapeCell_def orUndefined_def comma_def dquote_def
         newline_def)
  note inst = csv_escaping_injective [of "''a,b''" "''ab''" "[''1'', ''2'']" "[''1'', ''2'']"
      db_createCSV "''id-1''" None exampleTable exampleContext Map.empty exampleOutput
      "[''id-1'' \<mapsto> insertData ''id-1'' exampleTable exampleContext]"
      db_createCSV "''id-1''" None exampleTable exampleContext Map.empty exampleOutput
      "[''id-1'' \<mapsto> insertData ''id-1'' exampleTable exampleContext]"]
  from inst special
  have "escapeCell ''a,b''
      = [dquote] @ concat (map (\<lambda>c. if c = dquote then [dquote, dquote] else [c]) ''a,b'') @ [dquote]"
    by blast
  then have quoted: "escapeCell ''a,b'' = [dquote] @ ''a,b'' @ [dquote]"
    by (simp add: dquote_def)
  from inst plain have verbatim: "escapeCell ''ab'' = ''ab''"
    by blast
  have len: "length [''1'', ''2''] = length [''1'', ''2'']"
    by simp
  have rows: "in_rows exampleTable = [ [''1'', ''2''] ]"
    by (simp add: exampleTable_def)
  from special quoted plain verbatim len created rows show ?thesis
    by blast
qed

text \<open>
  The header line is not part of that statement: the header names are joined with commas
  as they are.
\<close>

lemma header_names_joined_verbatim: "csvContent [''a,b'', ''c''] [] = ''a,b,c''"
  by (simp add: csvContent_def comma_def)

section \<open>Properties of codeExecution and patentAnalysis\<close>

lemma runInSandbox_no_delete:
  "filter isSandboxDelete (snd (runInSandbox w isDevelopment inp ctx sandbox)) = []"
  by (simp add: runInSandbox_def Let_def split: sum.splits option.splits)

text \<open>
  Claim C5. In every call of \<^verbatim>\<open>codeExecution\<close> that provisions a sandbox, the calls
  made contain exactly one \<^verbatim>\<open>sandbox.delete()\<close>, on that sandbox, whatever the run
  of the code does (it returns with exit code zero or not, or it throws) and whatever the
  analytics, billing and deletion calls do; the trace begins with the provisioning.
\<close>

theorem codeExecution_deletes_once:
  assumes "length (ci_code inp) \<le> 10000" and "truthy daytonaApiKey"
    and "sw_create w = Inr sandbox"
  shows "filter isSandboxDelete (snd (codeExecution w isDevelopment daytonaApiKey inp ctx))
           = [SandboxDelete sandbox]
         \<and> hd (snd (codeExecution w isDevelopment daytonaApiKey inp ctx)) = SandboxCreate sandbox"
proof -
  obtain outcome calls where run: "runInSandbox w isDevelopment inp ctx sandbox = (outcome, calls)"
    by (cases "runInSandbox w isDevelopment inp ctx sandbox")
  with runInSandbox_no_delete [of w isDevelopment inp ctx sandbox]
  have none: "filter isSandboxDelete calls = []" by simp
  have clean: "filter isSandboxDelete (cleanup w (Some sandbox)) = [SandboxDelete sandbox]"
    by (simp add: cleanup_def split: option.splits)
  from assms run have "snd (codeExecution w isDevelopment daytonaApiKey inp ctx)
      = SandboxCreate sandbox # calls @ cleanup w (Some sandbox)"
    by (simp add: codeExecution_def Let_def split: sum.splits)
  with none clean show ?thesis by simp
qed

theorem codeExecution_deletes_once_witness:
  "length (ci_code exampleCode) \<le> 10000 \<and> truthy (Some ''key'')
   \<and> sw_create exampleSandboxWorld = Inr 7
   \<and> filter isSandboxDelete (snd (codeExecution exampleSandboxWorld False (Some ''key'') exampleCode exampleContext))
           = [SandboxDelete 7]
   \<and> snd (codeExecution exampleSandboxWorld False (Some ''key'') exampleCode exampleContext)
       = [SandboxCreate 7, SandboxCodeRun 7 ''print(1)'', SandboxDelete 7]"
proof -
  have h1: "length (ci_code exampleCode) \<le> 10000" by (simp add: exampleCode_def)
  have h2: "truthy (Some ''key'')" by simp
  have h3: "sw_create exampleSandboxWorld = Inr 7" by (simp add: exampleSandboxWorld_def)
  have tr: "snd (codeExecution exampleSandboxWorld False (Some ''key'') exampleCode exampleContext)
       = [SandboxCreate 7, SandboxCodeRun 7 ''print(1)'', SandboxDelete 7]"
    by (simp add: codeExecution_def runInSandbox_def cleanup_def exampleSandboxWorld_def exampleCode_def)
  from codeExecution_deletes_once [OF h1 h2 h3, of False exampleContext] h1 h2 h3 tr
  show ?thesis by blast
qed

text \<open>
  Claim C9, as stated, fails: the payload echoes the caller's query, so for the query
  \<^verbatim>\<open>US99999999\<close> and a search that returns no results the payload holds that patent
  number, which is absent from the upstream results.
\<close>

theorem payload_echoes_query_counterexample:
  "truthy (Some ''key'')
   \<and> vw_search emptyValyuWorld (pa_query unknownQuery) (pa_maxResults unknownQuery)
       = Inr (Some \<lparr> sr_results = Some [], sr_total_deduction_dollars = None \<rparr>)
   \<and> vw_track emptyValyuWorld = None
   \<and> fst (patentAnalysis emptyValyuWorld False (Some ''key'') unknownQuery exampleContext)
       = JsonPayload
           \<lparr> pp_type = ''patent_analysis'', pp_query = ''US99999999'',
             pp_resultCount = 0, pp_results = [],
             pp_favicon = ''https://www.uspto.gov/favicon.ico'',
             pp_displaySource = ''USPTO (via Valyu)'' \<rparr>
   \<and> ''US99999999''
       \<in> set (payloadTexts
           \<lparr> pp_type = ''patent_analysis'', pp_query = ''US99999999'',
             pp_resultCount = 0, pp_results = [],
             pp_favicon = ''https://www.uspto.gov/favicon.ico'',
             pp_displaySource = ''USPTO (via Valyu)'' \<rparr>)
   \<and> ''US99999999''
       \<notin> set (resultsOf (Some \<lparr> sr_results = Some ([] :: string list),
                                   sr_total_deduction_dollars = (None :: nat option) \<rparr>))"
  by code_simp

lemma patentAnalysis_JsonPayload:
  assumes "fst (patentAnalysis w isDevelopment apiKey inp ctx) = JsonPayload p"
  shows "\<exists>response.
           vw_search w (pa_query inp) (if pa_maxResults inp = 0 then 5 else pa_maxResults inp)
             = Inr response
         \<and> p = \<lparr> pp_type = ''patent_analysis'', pp_query = pa_query inp,
                 pp_resultCount = length (resultsOf response), pp_results = resultsOf response,
                 pp_favicon = ''https://www.uspto.gov/favicon.ico'',
                 pp_displaySource = ''USPTO (via Valyu)'' \<rparr>"
proof (cases "vw_search w (pa_query inp) (if pa_maxResults inp = 0 then 5 else pa_maxResults inp)")
  case (Inl err)
  with assms show ?thesis
    by (simp add: patentAnalysis_def split: if_splits)
next
  case (Inr response)
  with assms show ?thesis
    by (cases "vw_track w") (auto simp: patentAnalysis_def Let_def split: if_splits)
qed

text \<open>
  Claim C9, amended. A \<^verbatim>\<open>patentAnalysis\<close> call that succeeds (the key is set, the
  search and the analytics call do not throw) returns the payload whose type is
  \<^verbatim>\<open>patent_analysis\<close> and whose display source is \<^verbatim>\<open>USPTO (via Valyu)\<close>. In every
  payload the call returns, the results field is the list of results the search gave, the
  query field is the caller's query, and each text of the payload is one of the upstream
  results, the caller's query or one of three constants: a patent number in the payload
  comes from the upstream results or from the query.
\<close>

theorem patentAnalysis_relays_results:
  "(truthy apiKey
      \<and> vw_search w (pa_query inp) (if pa_maxResults inp = 0 then 5 else pa_maxResults inp)
          = Inr response
      \<and> vw_track w = None \<longrightarrow>
      fst (patentAnalysis w isDevelopment apiKey inp ctx) =
        JsonPayload
          \<lparr> pp_type = ''patent_analysis'', pp_query = pa_query inp,
            pp_resultCount = length (resultsOf response), pp_results = resultsOf response,
            pp_favicon = ''https://www.uspto.gov/favicon.ico'',
            pp_displaySource = ''USPTO (via Valyu)'' \<rparr>)
   \<and> (fst (patentAnalysis v isDevelopment' apiKey' inp' ctx') = JsonPayload p \<longrightarrow>
        pp_type p = ''patent_analysis'' \<and> pp_displaySource p = ''USPTO (via Valyu)''
        \<and> pp_query p = pa_query inp'
        \<and> (\<exists>upstream.
              vw_search v (pa_query inp')
                (if pa_maxResults inp' = 0 then 5 else pa_maxResults inp') = Inr upstream
              \<and> pp_results p = resultsOf upstream
              \<and> pp_resultCount p = length (resultsOf upstream)
              \<and> set (payloadTexts p)
                  \<subseteq> set (resultsOf upstream)
                    \<union> {pa_query inp', ''patent_analysis'', ''https://www.uspto.gov/favicon.ico'',
                        ''USPTO (via Valyu)''}))"
proof (intro conjI impI)
  assume "truthy apiKey
      \<and> vw_search w (pa_query inp) (if pa_maxResults inp = 0 then 5 else pa_maxResults inp)
          = Inr response
      \<and> vw_track w = None"
  then show "fst (patentAnalysis w isDevelopment apiKey inp ctx) =
        JsonPayload
          \<lparr> pp_type = ''patent_analysis'', pp_query = pa_query inp,
            pp_resultCount = length (resultsOf response), pp_results = resultsOf response,
            pp_favicon = ''https://www.uspto.gov/favicon.ico'',
            pp_displaySource = ''USPTO (via Valyu)'' \<rparr>"
    by (simp add: patentAnalysis_def Let_def)
next
  assume a: "fst (patentAnalysis v isDevelopment' apiKey' inp' ctx') = JsonPayload p"
  from patentAnalysis_JsonPayload [OF a] obtain upstream where
    s: "vw_search v (pa_query inp') (if pa_maxResults inp' = 0 then 5 else pa_maxResults inp')
          = Inr upstream"
    and p: "p = \<lparr> pp_type = ''patent_analysis'', pp_query = pa_query inp',
                 pp_resultCount = length (resultsOf upstream), pp_results = resultsOf upstream,
                 pp_favicon = ''https://www.uspto.gov/favicon.ico'',
                 pp_displaySource = ''USPTO (via Valyu)'' \<rparr>"
    by blast
  from p show "pp_type p = ''patent_analysis''" by simp
  from p show "pp_displaySource p = ''USPTO (via Valyu)''" by simp
  from p show "pp_query p = pa_query inp'" by simp
  from p have "set (payloadTexts p)
                  \<subseteq> set (resultsOf upstream)
                    \<union> {pa_query inp', ''patent_analysis'', ''https://www.uspto.gov/favicon.ico'',
                        ''USPTO (via Valyu)''}"
    unfolding payloadTexts_def by (simp only: p patent_payload.simps set_append list.set) blast
  with s p show "\<exists>upstream.
              vw_search v (pa_query inp')
                (if pa_maxResults inp' = 0 then 5 else pa_maxResults inp') = Inr upstream
              \<and> pp_results p = resultsOf upstream
              \<and> pp_resultCount p = length (resultsOf upstream)
              \<and> set (payloadTexts p)
                  \<subseteq> set (resultsOf upstream)
                    \<union> {pa_query inp', ''patent_analysis'', ''https://www.uspto.gov/favicon.ico'',
                        ''USPTO (via Valyu)''}"
    by (intro exI [of _ upstream]) simp
qed

theorem patentAnalysis_relays_results_witness:
  "truthy (Some ''key'')
   \<and> vw_search exampleValyuWorld (pa_query exampleQuery)
        (if pa_maxResults exampleQuery = 0 then 5 else pa_maxResults exampleQuery)
       = Inr (Some \<lparr> sr_results = Some [''US11234567''], sr_total_deduction_dollars = None \<rparr>)
   \<and> vw_track exampleValyuWorld = None
   \<and> fst (patentAnalysis exampleValyuWorld False (Some ''key'') exampleQuery exampleContext) =
           JsonPayload
             \<lparr> pp_type = ''patent_analysis'', pp_query = ''US11234567'',
               pp_resultCount = 1, pp_results = [''US11234567''],
               pp_favicon = ''https://www.uspto.gov/favicon.ico'',
               pp_displaySource = ''USPTO (via Valyu)'' \<rparr>
   \<and> set (payloadTexts
           \<lparr> pp_type = ''patent_analysis'', pp_query = ''US11234567'',
             pp_resultCount = 1, pp_results = [''US11234567''],
             pp_favicon = ''https://www.uspto.gov/favicon.ico'',
             pp_displaySource = ''USPTO (via Valyu)'' \<rparr>)
       \<subseteq> set [''US11234567'']
         \<union> {''US11234567'', ''patent_analysis'', ''https://www.uspto.gov/favicon.ico'',
             ''USPTO (via Valyu)''}"
proof -
  let ?upstream = "Some \<lparr> sr_results = Some [''US11234567''],
                          sr_total_deduction_dollars = (None :: nat option) \<rparr>"
  let ?payload = "\<lparr> pp_type = ''patent_analysis'', pp_query = ''US11234567'',
               pp_resultCount = 1, pp_results = [''US11234567''],
               pp_favicon = ''https://www.uspto.gov/favicon.ico'',
               pp_displaySource = ''USPTO (via Valyu)'' \<rparr>"
  have h1: "truthy (Some ''key'')" by simp
  have h2: "vw_search exampleValyuWorld (pa_query exampleQuery)
        (if pa_maxResults exampleQuery = 0 then 5 else pa_maxResults exampleQuery)
       = Inr ?upstream"
    by (simp add: exampleValyuWorld_def)
  have h3: "vw_track exampleValyuWorld = None" by (simp add: exampleValyuWorld_def)
  note inst = patentAnalysis_relays_results
    [of "Some ''key''" exampleValyuWorld exampleQuery ?upstream False exampleContext
        exampleValyuWorld False "Some ''key''" exampleQuery exampleContext ?payload]
  from inst h1 h2 h3
  have "fst (patentAnalysis exampleValyuWorld False (Some ''key'') exampleQuery exampleContext) =
           JsonPayload
             \<lparr> pp_type = ''patent_analysis'', pp_query = pa_query exampleQuery,
               pp_resultCount = length (resultsOf ?upstream), pp_results = resultsOf ?upstream,
               pp_favicon = ''https://www.uspto.gov/favicon.ico'',
               pp_displaySource = ''USPTO (via Valyu)'' \<rparr>"
    by blast
  then have run: "fst (patentAnalysis exampleValyuWorld False (Some ''key'') exampleQuery
                     exampleContext) = JsonPayload ?payload"
    by (simp add: resultsOf_def exampleQuery_def)
  from inst run obtain upstream where
    "vw_search exampleValyuWorld (pa_query exampleQuery)
        (if pa_maxResults exampleQuery = 0 then 5 else pa_maxResults exampleQuery) = Inr upstream"
    and sub: "set (payloadTexts ?payload)
        \<subseteq> set (resultsOf upstream)
          \<union> {pa_query exampleQuery, ''patent_analysis'', ''https://www.uspto.gov/favicon.ico'',
              ''USPTO (via Valyu)''}"
    by blast
  with h2 have "upstream = ?upstream" by simp
  with sub have "set (payloadTexts ?payload)
       \<subseteq> set [''US11234567'']
         \<union> {''US11234567'', ''patent_analysis'', ''https://www.uspto.gov/favicon.ico'',
             ''USPTO (via Valyu)''}"
    by (simp add: resultsOf_def exampleQuery_def)
  with h1 h2 h3 run show ?thesis by blast
qed

section \<open>Properties of the environment validation\<close>

text \<open>
  Claim C2, as stated, fails: with the required credentials missing in production mode
  the validation result is not valid, and yet loading the module completes; nothing is
  thrown at start. In development mode the missing Polar token draws no warning (the only
  warning is the one for the AI Gateway key), and loading the module writes nothing.
\<close>

theorem production_load_completes_counterexample:
  "\<not> isDevelopmentEnv productionWithoutKeys
   \<and> missing productionWithoutKeys ''POLAR_ACCESS_TOKEN''
   \<and> \<not> valid (validatePaymentEnvironment productionWithoutKeys)
   \<and> snd (moduleLoad productionWithoutKeys) = Loaded
   \<and> isDevelopmentEnv developmentWithoutKeys
   \<and> missing developmentWithoutKeys ''POLAR_ACCESS_TOKEN''
   \<and> warnings (validatePaymentEnvironment developmentWithoutKeys)
       = [''AI_GATEWAY_API_KEY missing - recommended for Vercel AI SDK integration'']
   \<and> moduleLoad developmentWithoutKeys = ([], Loaded)"
  by code_simp

lemma pushIf_mem: "m \<in> set (pushIf c m) \<longleftrightarrow> c"
  by (simp add: pushIf_def)

lemma production_error_listed:
  assumes "\<not> isDevelopmentEnv env"
  shows "missing env ''NEXT_PUBLIC_SUPABASE_URL'' \<Longrightarrow>
           ''NEXT_PUBLIC_SUPABASE_URL is required'' \<in> set (validationErrors env)"
    and "missing env ''NEXT_PUBLIC_SUPABASE_ANON_KEY'' \<Longrightarrow>
           ''NEXT_PUBLIC_SUPABASE_ANON_KEY is required'' \<in> set (validationErrors env)"
    and "missing env ''SUPABASE_SERVICE_ROLE_KEY'' \<Longrightarrow>
           ''SUPABASE_SERVICE_ROLE_KEY is required'' \<in> set (validationErrors env)"
    and "missing env ''POLAR_ACCESS_TOKEN'' \<Longrightarrow>
           ''POLAR_ACCESS_TOKEN is required in production'' \<in> set (validationErrors env)"
    and "missing env ''POLAR_WEBHOOK_SECRET'' \<Longrightarrow>
           ''POLAR_WEBHOOK_SECRET is required in production'' \<in> set (validationErrors env)"
    and "missing env ''POLAR_UNLIMITED_PRODUCT_ID'' \<Longrightarrow>
           ''POLAR_UNLIMITED_PRODUCT_ID is required in production'' \<in> set (validationErrors env)"
    and "missing env ''POLAR_PAY_PER_USE_PRODUCT_ID'' \<Longrightarrow>
           ''POLAR_PAY_PER_USE_PRODUCT_ID is required in production'' \<in> set (validationErrors env)"
    and "missing env ''AI_GATEWAY_API_KEY'' \<Longrightarrow>
           ''AI_GATEWAY_API_KEY is required - get your key at https://vercel.com/dashboard > AI Gateway > API Keys''
             \<in> set (validationErrors env)"
  using assms by (simp_all add: validationErrors_def Let_def pushIf_mem)

lemma production_errors:
  assumes "\<not> isDevelopmentEnv env" and "k \<in> set requiredInProduction" and "missing env k"
  shows "\<exists>e \<in> set (validationErrors env). startsWith e k"
proof -
  from assms(2)
  have "k = ''NEXT_PUBLIC_SUPABASE_URL'' \<or> k = ''NEXT_PUBLIC_SUPABASE_ANON_KEY'' \<or> k = ''SUPABASE_SERVICE_ROLE_KEY'' \<or> k = ''POLAR_ACCESS_TOKEN'' \<or> k = ''POLAR_WEBHOOK_SECRET'' \<or> k = ''POLAR_UNLIMITED_PRODUCT_ID'' \<or> k = ''POLAR_PAY_PER_USE_PRODUCT_ID'' \<or> k = ''AI_GATEWAY_API_KEY''"
    by (simp add: requiredInProduction_def)
  then show ?thesis
  proof (elim disjE)
    assume k: "k = ''NEXT_PUBLIC_SUPABASE_URL''"
    with assms(3) have "missing env ''NEXT_PUBLIC_SUPABASE_URL''" by simp
    from production_error_listed(1) [OF assms(1) this] show ?thesis
      unfolding k by (rule bexI [rotated]) simp
  next
    assume k: "k = ''NEXT_PUBLIC_SUPABASE_ANON_KEY''"
    with assms(3) have "missing env ''NEXT_PUBLIC_SUPABASE_ANON_KEY''" by simp
    from production_error_listed(2) [OF assms(1) this] show ?thesis
      unfolding k by (rule bexI [rotated]) simp
  next
    assume k: "k = ''SUPABASE_SERVICE_ROLE_KEY''"
    with assms(3) have "missing env ''SUPABASE_SERVICE_ROLE_KEY''" by simp
    from production_error_listed(3) [OF assms(1) this] show ?thesis
      unfolding k by (rule bexI [rotated]) simp
  next
    assume k: "k = ''POLAR_ACCESS_TOKEN''"
    with assms(3) have "missing env ''POLAR_ACCESS_TOKEN''" by simp
    from production_error_listed(4) [OF assms(1) this] show ?thesis
      unfolding k by (rule bexI [rotated]) simp
  next
    assume k: "k = ''POLAR_WEBHOOK_SECRET''"
    with assms(3) have "missing env ''POLAR_WEBHOOK_SECRET''" by simp
    from production_error_listed(5) [OF assms(1) this] show ?thesis
      unfolding k by (rule bexI [rotated]) simp
  next
    assume k: "k = ''POLAR_UNLIMITED_PRODUCT_ID''"
    with assms(3) have "missing env ''POLAR_UNLIMITED_PRODUCT_ID''" by simp
    from production_error_listed(6) [OF assms(1) this] show ?thesis
      unfolding k by (rule bexI [rotated]) simp
  next
    assume k: "k = ''POLAR_PAY_PER_USE_PRODUCT_ID''"
    with assms(3) have "missing env ''POLAR_PAY_PER_USE_PRODUCT_ID''" by simp
    from production_error_listed(7) [OF assms(1) this] show ?thesis
      unfolding k by (rule bexI [rotated]) simp
  next
    assume k: "k = ''AI_GATEWAY_API_KEY''"
    with assms(3) have "missing env ''AI_GATEWAY_API_KEY''" by simp
    from production_error_listed(8) [OF assms(1) this] show ?thesis
      unfolding k by (rule bexI [rotated]) simp
  qed
qed

lemma development_errors:
  assumes "isDevelopmentEnv env"
  shows "validationErrors env =
     pushIf (truthy (env ''NEXT_PUBLIC_SUPABASE_URL'')
                  \<and> \<not> startsWith (orElse (env ''NEXT_PUBLIC_SUPABASE_URL'') []) ''https://'')
            ''NEXT_PUBLIC_SUPABASE_URL must be a valid HTTPS URL''"
  using assms by (simp add: validationErrors_def Let_def)

text \<open>
  Claim C2, amended. Outside development mode a missing required credential makes the
  validation result invalid, with an error that names the variable, and at start the
  errors are written to the console and the load completes. In development mode the only
  error the validation can report is the one about the format of a Supabase URL that is
  set, so a missing credential is never an error; a missing AI Gateway key is a warning;
  and the load writes nothing.
\<close>

theorem environment_validation_by_mode:
  "(\<not> isDevelopmentEnv env \<and> k \<in> set requiredInProduction \<and> missing env k \<longrightarrow>
      \<not> valid (validatePaymentEnvironment env)
      \<and> (\<exists>e \<in> set (errors (validatePaymentEnvironment env)). startsWith e k)
      \<and> moduleLoad env =
          (map (\<lambda>e. ErrorLine (''  - '' @ e)) (errors (validatePaymentEnvironment env)), Loaded))
   \<and> (isDevelopmentEnv dev \<longrightarrow>
      (\<forall>e \<in> set (errors (validatePaymentEnvironment dev)).
         e = ''NEXT_PUBLIC_SUPABASE_URL must be a valid HTTPS URL'')
      \<and> (missing dev ''NEXT_PUBLIC_SUPABASE_URL'' \<longrightarrow> errors (validatePaymentEnvironment dev) = [])
      \<and> warnings (validatePaymentEnvironment dev) =
          pushIf (missing dev ''AI_GATEWAY_API_KEY'')
            ''AI_GATEWAY_API_KEY missing - recommended for Vercel AI SDK integration''
      \<and> moduleLoad dev = ([], Loaded))"
proof (intro conjI impI)
  assume a: "\<not> isDevelopmentEnv env \<and> k \<in> set requiredInProduction \<and> missing env k"
  then have ex: "\<exists>e \<in> set (validationErrors env). startsWith e k"
    using production_errors by blast
  then show "\<exists>e \<in> set (errors (validatePaymentEnvironment env)). startsWith e k"
    by (simp add: validatePaymentEnvironment_def)
  from ex have ne: "validationErrors env \<noteq> []" by auto
  then show "\<not> valid (validatePaymentEnvironment env)"
    by (simp add: validatePaymentEnvironment_def)
  from a ne show "moduleLoad env =
          (map (\<lambda>e. ErrorLine (''  - '' @ e)) (errors (validatePaymentEnvironment env)), Loaded)"
    by (simp add: moduleLoad_def isDevelopmentEnv_def validatePaymentEnvironment_def)
next
  assume d: "isDevelopmentEnv dev"
  then show "\<forall>e \<in> set (errors (validatePaymentEnvironment dev)).
         e = ''NEXT_PUBLIC_SUPABASE_URL must be a valid HTTPS URL''"
    by (simp add: validatePaymentEnvironment_def development_errors pushIf_def)
  from d show "warnings (validatePaymentEnvironment dev) =
          pushIf (missing dev ''AI_GATEWAY_API_KEY'')
            ''AI_GATEWAY_API_KEY missing - recommended for Vercel AI SDK integration''"
    by (simp add: validatePaymentEnvironment_def validationWarnings_def Let_def)
  from d show "moduleLoad dev = ([], Loaded)"
    by (simp add: moduleLoad_def isDevelopmentEnv_def)
next
  assume "isDevelopmentEnv dev" and "missing dev ''NEXT_PUBLIC_SUPABASE_URL''"
  then show "errors (validatePaymentEnvironment dev) = []"
    by (simp add: validatePaymentEnvironment_def development_errors pushIf_def missing_def)
qed

theorem environment_validation_by_mode_witness:
  "\<not> isDevelopmentEnv productionWithoutKeys
   \<and> ''POLAR_ACCESS_TOKEN'' \<in> set requiredInProduction
   \<and> missing productionWithoutKeys ''POLAR_ACCESS_TOKEN''
   \<and> \<not> valid (validatePaymentEnvironment productionWithoutKeys)
   \<and> isDevelopmentEnv developmentWithoutKeys
   \<and> missing developmentWithoutKeys ''NEXT_PUBLIC_SUPABASE_URL''
   \<and> errors (validatePaymentEnvironment developmentWithoutKeys) = []
   \<and> warnings (validatePaymentEnvironment developmentWithoutKeys) =
       [''AI_GATEWAY_API_KEY missing - recommended for Vercel AI SDK integration'']
   \<and> moduleLoad developmentWithoutKeys = ([], Loaded)"
proof -
  have p1: "\<not> isDevelopmentEnv productionWithoutKeys"
    by (simp add: isDevelopmentEnv_def productionWithoutKeys_def)
  have p2: "''POLAR_ACCESS_TOKEN'' \<in> set requiredInProduction"
    by (simp add: requiredInProduction_def)
  have p3: "missing productionWithoutKeys ''POLAR_ACCESS_TOKEN''"
    by (simp add: missing_def productionWithoutKeys_def)
  have d1: "isDevelopmentEnv developmentWithoutKeys"
    by (simp add: isDevelopmentEnv_def developmentWithoutKeys_def)
  have d2: "missing developmentWithoutKeys ''NEXT_PUBLIC_SUPABASE_URL''"
    by (simp add: missing_def developmentWithoutKeys_def)
  have d3: "missing developmentWithoutKeys ''AI_GATEWAY_API_KEY''"
    by (simp add: missing_def developmentWithoutKeys_def)
  note inst = environment_validation_by_mode
    [of productionWithoutKeys "''POLAR_ACCESS_TOKEN''" developmentWithoutKeys]
  from inst p1 p2 p3 have c1: "\<not> valid (validatePaymentEnvironment productionWithoutKeys)"
    by blast
  from inst d1 d2 have c2: "errors (validatePaymentEnvironment developmentWithoutKeys) = []"
    by blast
  from inst d1 have "warnings (validatePaymentEnvironment developmentWithoutKeys) =
          pushIf (missing developmentWithoutKeys ''AI_GATEWAY_API_KEY'')
            ''AI_GATEWAY_API_KEY missing - recommended for Vercel AI SDK integration''"
    by blast
  with d3 have c3: "warnings (validatePaymentEnvironment developmentWithoutKeys) =
       [''AI_GATEWAY_API_KEY missing - recommended for Vercel AI SDK integration'']"
    by (simp add: pushIf_def)
  from inst d1 have c4: "moduleLoad developmentWithoutKeys = ([], Loaded)"
    by blast
  from p1 p2 p3 c1 d1 d2 c2 c3 c4 show ?thesis by blast
qed

section \<open>Properties of the chat endpoint\<close>

subsection \<open>Error responses\<close>

lemma returnsOnly_bindA:
  assumes "returnsOnly P m" and "\<And>x. returnsOnly P (f x)"
  shows "returnsOnly P (bindA m f)"
  unfolding returnsOnly_def
proof
  fix w
  from assms(1) have m: "case fst (m w) of Return r \<Rightarrow> P r | Next x \<Rightarrow> True | Throw e \<Rightarrow> True"
    by (simp add: returnsOnly_def)
  show "case fst (bindA m f w) of Return r \<Rightarrow> P r | Next x \<Rightarrow> True | Throw e \<Rightarrow> True"
  proof (cases "m w")
    case (Pair s w1)
    show ?thesis
    proof (cases s)
      case (Next x)
      with Pair assms(2) [of x] show ?thesis by (simp add: bindA_def returnsOnly_def)
    next
      case (Return r)
      with Pair m show ?thesis by (simp add: bindA_def)
    next
      case (Throw e)
      with Pair show ?thesis by (simp add: bindA_def)
    qed
  qed
qed

lemma returnsOnly_basic:
  "returnsOnly P (proceed x)" "returnsOnly P (raise e)" "returnsOnly P (await outcome)"
  "returnsOnly P (awaitVoid outcome')" "returnsOnly P (emit ev)"
  "P r \<Longrightarrow> returnsOnly P (respond r)"
  by (simp_all add: returnsOnly_def proceed_def raise_def await_def awaitVoid_def emit_def
      respond_def split: sum.splits option.splits)

lemmas returnsOnly_intros = returnsOnly_bindA returnsOnly_basic

lemma returnsOnly_createClients: "returnsOnly P (createClients env)"
  by (simp add: createClients_def returnsOnly_intros)

lemma returnsOnly_accessStage: "returnsOnly matchesSpecStatus (accessStage env user)"
  by (auto simp: accessStage_def paymentRequired_def specStatus_def
      intro!: returnsOnly_intros split: option.splits)

lemma returnsOnly_rateLimitStage: "returnsOnly matchesSpecStatus (rateLimitStage env user messages)"
  by (auto simp: rateLimitStage_def anonymousLimitExceeded_def userLimitExceeded_def specStatus_def
      intro!: returnsOnly_intros split: option.splits)

lemma returnsOnly_gatewayKeyStage: "returnsOnly P (gatewayKeyStage env)"
  by (simp add: gatewayKeyStage_def returnsOnly_intros)

lemma returnsOnly_selectProvider: "returnsOnly P (selectProvider env req user)"
  by (auto simp: selectProvider_def intro!: returnsOnly_intros split: option.splits sum.splits)

lemma returnsOnly_userTierStage: "returnsOnly P (userTierStage env user)"
  by (auto simp: userTierStage_def intro!: returnsOnly_intros split: option.splits)

lemma returnsOnly_getChatMessages: "returnsOnly P (getChatMessages env sid)"
  unfolding getChatMessages_def
  by (rule returnsOnly_bindA, rule returnsOnly_basic) (simp add: returnsOnly_def)

lemma returnsOnly_saveChatMessages: "returnsOnly P (saveChatMessages env sid msgs)"
  unfolding saveChatMessages_def
  by (rule returnsOnly_bindA, rule returnsOnly_basic) (simp add: returnsOnly_def)

lemma returnsOnly_saveUserMessage: "returnsOnly P (saveUserMessage env user body)"
  by (auto simp: saveUserMessage_def Let_def returnsOnly_getChatMessages returnsOnly_saveChatMessages
      intro!: returnsOnly_intros split: option.splits)

lemma returnsOnly_streamTextStage: "returnsOnly P (streamTextStage env req sel)"
  by (auto simp: streamTextStage_def intro!: returnsOnly_intros)

lemma returnsOnly_incrementStage: "returnsOnly P (incrementStage env user messages)"
  by (auto simp: incrementStage_def intro!: returnsOnly_intros split: option.splits)

lemma returnsOnly_handler: "returnsOnly matchesSpecStatus (handler env req)"
  unfolding handler_def
  by (intro returnsOnly_bindA returnsOnly_basic returnsOnly_createClients returnsOnly_accessStage
      returnsOnly_rateLimitStage returnsOnly_gatewayKeyStage returnsOnly_selectProvider
      returnsOnly_userTierStage returnsOnly_saveUserMessage returnsOnly_streamTextStage
      returnsOnly_incrementStage)

lemma handler_Next_stream:
  "handler env req w = (Next r, w') \<Longrightarrow> r = StreamResponse (streamHeaders env)"
  by (auto simp: handler_def bindA_def proceed_def split: prod.splits step.splits)

lemma matches_errorResponse: "matchesSpecStatus (errorResponse e)"
  by (simp add: errorResponse_def Let_def specStatus_def)

text \<open>
  Claim C6. Every response of \<^verbatim>\<open>POST\<close> that is not the stream is a JSON body whose
  error code is one of the four of the spec, sent with the status the spec pairs it with:
  PAYMENT_REQUIRED with 402, RATE_LIMIT_EXCEEDED with 429, MODEL_COMPATIBILITY_ERROR with
  400 and CHAT_ERROR with 500.
\<close>

theorem error_code_determines_status:
  assumes "fst (POST env req w) = JsonResponse status body headers"
  shows "specStatus (eb_error body) = Some status"
proof -
  have "matchesSpecStatus (fst (POST env req w))"
  proof (cases "handler env req w")
    case (Pair s w')
    show ?thesis
    proof (cases s)
      case (Next r)
      with Pair handler_Next_stream [of env req w r w'] assms show ?thesis by (simp add: POST_def)
    next
      case (Return r)
      from returnsOnly_handler [of env req]
      have "case fst (handler env req w) of Return r \<Rightarrow> matchesSpecStatus r
            | Next x \<Rightarrow> True | Throw e \<Rightarrow> True"
        unfolding returnsOnly_def by (rule spec)
      with Pair Return show ?thesis by (simp add: POST_def)
    next
      case (Throw e)
      with Pair show ?thesis by (simp add: POST_def matches_errorResponse)
    qed
  qed
  with assms show ?thesis by simp
qed

theorem error_code_determines_status_witness:
  "fst (POST paymentEnv firstTurn emptyWorld)
     = JsonResponse 402
         \<lparr> eb_error = ''PAYMENT_REQUIRED'', eb_message = ''Payment method setup required'',
           eb_fields = [(''tier'', Str ''free''), (''action'', Str ''setup_payment'')] \<rparr>
         jsonHeaders
   \<and> specStatus ''PAYMENT_REQUIRED'' = Some 402
   \<and> fst (POST limitedEnv firstTurn emptyWorld)
     = JsonResponse 429
         \<lparr> eb_error = ''RATE_LIMIT_EXCEEDED'',
           eb_message = ''Daily query limit reached. Upgrade to continue.'',
           eb_fields = [(''resetTime'', Str ''2026-01-01T00:00:00.000Z''), (''tier'', Str ''free'')] \<rparr>
         jsonHeaders
   \<and> specStatus ''RATE_LIMIT_EXCEEDED'' = Some 429
   \<and> fst (POST toolErrorEnv firstTurn emptyWorld)
     = JsonResponse 400
         \<lparr> eb_error = ''MODEL_COMPATIBILITY_ERROR'',
           eb_message = ''This model does not support Tools'',
           eb_fields = [(''compatibilityIssue'', Str ''tools'')] \<rparr>
         jsonHeaders
   \<and> specStatus ''MODEL_COMPATIBILITY_ERROR'' = Some 400
   \<and> fst (POST brokenStreamEnv firstTurn emptyWorld)
     = JsonResponse 500
         \<lparr> eb_error = ''CHAT_ERROR'', eb_message = ''socket hang up'',
           eb_fields = [(''details'', StackOfError)] \<rparr>
         jsonHeaders
   \<and> specStatus ''CHAT_ERROR'' = Some 500"
proof -
  have r1: "fst (POST paymentEnv firstTurn emptyWorld)
     = JsonResponse 402
         \<lparr> eb_error = ''PAYMENT_REQUIRED'', eb_message = ''Payment method setup required'',
           eb_fields = [(''tier'', Str ''free''), (''action'', Str ''setup_payment'')] \<rparr>
         jsonHeaders"
    by code_simp
  have r2: "fst (POST limitedEnv firstTurn emptyWorld)
     = JsonResponse 429
         \<lparr> eb_error = ''RATE_LIMIT_EXCEEDED'',
           eb_message = ''Daily query limit reached. Upgrade to continue.'',
           eb_fields = [(''resetTime'', Str ''2026-01-01T00:00:00.000Z''), (''tier'', Str ''free'')] \<rparr>
         jsonHeaders"
    by code_simp
  have r3: "fst (POST toolErrorEnv firstTurn emptyWorld)
     = JsonResponse 400
         \<lparr> eb_error = ''MODEL_COMPATIBILITY_ERROR'',
           eb_message = ''This model does not support Tools'',
           eb_fields = [(''compatibilityIssue'', Str ''tools'')] \<rparr>
         jsonHeaders"
    by code_simp
  have r4: "fst (POST brokenStreamEnv firstTurn emptyWorld)
     = JsonResponse 500
         \<lparr> eb_error = ''CHAT_ERROR'', eb_message = ''socket hang up'',
           eb_fields = [(''details'', StackOfError)] \<rparr>
         jsonHeaders"
    by code_simp
  from error_code_determines_status [OF r1] error_code_determines_status [OF r2]
    error_code_determines_status [OF r3] error_code_determines_status [OF r4] r1 r2 r3 r4
  show ?thesis by simp
qed

subsection \<open>Provider selection in development mode\<close>

lemma selectLocal_unreachable:
  assumes "ce_probe env = ProbeThrows e \<or> ce_probe env = ProbeNotOk status
           \<or> ce_probe env = ProbeOk None \<or> ce_probe env = ProbeOk (Some [])"
  shows "\<exists>err. selectLocal env req = Inl err"
  using assms
  by (auto simp: selectLocal_def probeModels_def split: sum.splits prod.splits list.splits)

text \<open>
  Claim C7. In development mode with local models enabled, when the probe of the local
  server fails (no connection or timeout), is answered with a status that is not ok, or
  lists no models, the selection step goes on, without throwing, with the fallback: the AI
  Gateway model when the gateway key is set, else the direct OpenAI model when that key
  is set, else the gateway model again.
\<close>

theorem development_fallback_without_throwing:
  assumes "ce_isDevelopment env" and "localEnabled req"
    and "ce_probe env = ProbeThrows e \<or> ce_probe env = ProbeNotOk status
         \<or> ce_probe env = ProbeOk None \<or> ce_probe env = ProbeOk (Some [])"
  shows "selectProvider env req user w =
           (Next (developmentFallback env),
            w\<lparr>cw_events := cw_events w @ [ProbeLocal (localProvider req)]\<rparr>)
         \<and> sel_model (developmentFallback env) =
             (if ce_hasGatewayKey env then GatewayModel ''openai/gpt-5''
              else if ce_hasOpenAIKey env then OpenAIModel ''gpt-5''
              else GatewayModel ''openai/gpt-5'')"
proof -
  from selectLocal_unreachable [OF assms(3)] obtain err where "selectLocal env req = Inl err"
    by blast
  with assms(1,2) show ?thesis
    by (simp add: selectProvider_def bindA_def emit_def proceed_def developmentFallback_def)
qed

theorem development_fallback_without_throwing_witness:
  "ce_isDevelopment developmentEnv \<and> localEnabled firstTurn
   \<and> ce_probe developmentEnv = ProbeThrows (ErrorObj ''fetch failed'')
   \<and> selectProvider developmentEnv firstTurn (Some ''user-1'') emptyWorld =
       (Next \<lparr> sel_model = OpenAIModel ''gpt-5'',
                sel_modelInfo = ''OpenAI (gpt-5) - Development Mode Fallback'',
                sel_supportsThinking = False \<rparr>,
        \<lparr> cw_events = [ProbeLocal ''ollama''], cw_sessions = Map.empty \<rparr>)"
proof -
  have h1: "ce_isDevelopment developmentEnv" by (simp add: developmentEnv_def)
  have h2: "localEnabled firstTurn" by (simp add: localEnabled_def firstTurn_def)
  have h3: "ce_probe developmentEnv = ProbeThrows (ErrorObj ''fetch failed'')"
    by (simp add: developmentEnv_def exampleEnv_def)
  have h3': "ce_probe developmentEnv = ProbeThrows (ErrorObj ''fetch failed'')
         \<or> ce_probe developmentEnv = ProbeNotOk 0
         \<or> ce_probe developmentEnv = ProbeOk None \<or> ce_probe developmentEnv = ProbeOk (Some [])"
    using h3 by simp
  have fb: "developmentFallback developmentEnv =
      \<lparr> sel_model = OpenAIModel ''gpt-5'',
        sel_modelInfo = ''OpenAI (gpt-5) - Development Mode Fallback'',
        sel_supportsThinking = False \<rparr>"
    by (simp add: developmentFallback_def developmentEnv_def)
  have lp: "localProvider firstTurn = ''ollama''" by (simp add: localProvider_def firstTurn_def)
  from development_fallback_without_throwing [OF h1 h2 h3', of "Some ''user-1''" emptyWorld]
  have "selectProvider developmentEnv firstTurn (Some ''user-1'') emptyWorld =
       (Next \<lparr> sel_model = OpenAIModel ''gpt-5'',
                sel_modelInfo = ''OpenAI (gpt-5) - Development Mode Fallback'',
                sel_supportsThinking = False \<rparr>,
        \<lparr> cw_events = [ProbeLocal ''ollama''], cw_sessions = Map.empty \<rparr>)"
    by (simp add: fb lp emptyWorld_def)
  with h1 h2 h3 show ?thesis by blast
qed

subsection \<open>The phases of the handler and what they leave unchanged\<close>

lemma bindA_assoc: "bindA (bindA m f) g = bindA m (\<lambda>x. bindA (f x) g)"
  by (rule ext) (simp add: bindA_def split: prod.splits step.splits)

lemma bindA_proceed: "bindA (proceed x) f = f x"
  by (rule ext) (simp add: bindA_def proceed_def)

lemma bindA_await_Inr: "bindA (await (Inr x)) f = f x"
  by (rule ext) (simp add: bindA_def await_def)

lemma handler_phases:
  assumes "rq_json req = Inr body" and "ce_getUser env = Inr user"
  shows "handler env req = bindA (beforeStreaming env req user body) (fromStreaming env req user body)"
  using assms
  by (simp add: handler_def beforeStreaming_def fromStreaming_def bindA_assoc bindA_proceed
      bindA_await_Inr)

lemma bindA_Next:
  "bindA m f w = (Next y, w') \<longleftrightarrow> (\<exists>x w1. m w = (Next x, w1) \<and> f x w1 = (Next y, w'))"
  by (auto simp: bindA_def split: prod.splits step.splits)

lemma bindA_NextE:
  assumes "bindA m f w = (Next y, w')"
  obtains x w1 where "m w = (Next x, w1)" and "f x w1 = (Next y, w')"
  using assms by (auto simp: bindA_Next)

lemma bindA_cases:
  assumes "bindA m f w = (s, w')"
  obtains (goes_on) x w1 where "m w = (Next x, w1)" and "f x w1 = (s, w')"
    | (returns) r where "m w = (Return r, w')" and "s = Return r"
    | (throws) e where "m w = (Throw e, w')" and "s = Throw e"
  using assms by (auto simp: bindA_def split: prod.splits step.splits)

lemma unchanged_bindA:
  assumes "unchanged f m" and "\<And>x. unchanged f (g x)"
  shows "unchanged f (bindA m g)"
  unfolding unchanged_def
proof
  fix w
  obtain s w1 where mw: "m w = (s, w1)" by (cases "m w")
  with assms(1) have w1: "f w1 = f w" by (auto simp: unchanged_def dest: spec [of _ w])
  show "f (snd (bindA m g w)) = f w"
  proof (cases s)
    case (Next x)
    from assms(2) [of x] have "f (snd (g x w1)) = f w1" by (simp add: unchanged_def)
    with Next mw w1 show ?thesis by (simp add: bindA_def)
  next
    case (Return r)
    with mw w1 show ?thesis by (simp add: bindA_def)
  next
    case (Throw e)
    with mw w1 show ?thesis by (simp add: bindA_def)
  qed
qed

lemma unchanged_basic:
  "unchanged f (proceed x)" "unchanged f (raise e)" "unchanged f (await outcome)"
  "unchanged f (awaitVoid outcome')" "unchanged f (respond r)"
  by (simp_all add: unchanged_def proceed_def raise_def await_def awaitVoid_def respond_def
      split: sum.splits option.splits)

lemma unchanged_emit_calls:
  "\<not> P ev \<Longrightarrow> unchanged (\<lambda>w. filter P (cw_events w)) (emit ev)"
  by (simp add: unchanged_def emit_def)

lemma unchanged_emit_sessions: "unchanged cw_sessions (emit ev)"
  by (simp add: unchanged_def emit_def)


lemma unchanged_read: "unchanged f (\<lambda>w. (Next (g w), w))"
  by (simp add: unchanged_def)

lemmas unchanged_intros = unchanged_bindA unchanged_basic unchanged_emit_calls unchanged_read

lemma calls_createClients: "unchanged f (createClients env)"
  by (simp add: createClients_def unchanged_basic)

lemma calls_gatewayKeyStage: "unchanged f (gatewayKeyStage env)"
  by (simp add: gatewayKeyStage_def unchanged_basic)

lemma calls_accessStage:
  assumes "\<And>uid. \<not> P (ValidateAccess uid)"
  shows "unchanged (\<lambda>w. filter P (cw_events w)) (accessStage env user)"
  using assms by (auto simp: accessStage_def intro!: unchanged_intros split: option.splits)

lemma calls_rateLimitStage_skipped:
  assumes "\<not> (isUserInitiated messages \<and> \<not> ce_isDevelopment env)"
  shows "unchanged f (rateLimitStage env user messages)"
  using assms by (auto simp: rateLimitStage_def intro!: unchanged_intros)

lemma calls_rateLimitStage:
  assumes "\<not> P CheckAnonymousRateLimit" and "\<And>uid. \<not> P (CheckUserRateLimit uid)"
  shows "unchanged (\<lambda>w. filter P (cw_events w)) (rateLimitStage env user messages)"
  using assms by (auto simp: rateLimitStage_def intro!: unchanged_intros split: option.splits)

lemma calls_selectProvider:
  assumes "\<And>p. \<not> P (ProbeLocal p)" and "\<And>uid. \<not> P (GetUserProfile uid)"
  shows "unchanged (\<lambda>w. filter P (cw_events w)) (selectProvider env req user)"
  using assms
  by (auto simp: selectProvider_def intro!: unchanged_intros split: option.splits sum.splits)

lemma calls_userTierStage:
  assumes "\<And>uid. \<not> P (GetUserProfile uid)"
  shows "unchanged (\<lambda>w. filter P (cw_events w)) (userTierStage env user)"
  using assms by (auto simp: userTierStage_def intro!: unchanged_intros split: option.splits)

lemma calls_getChatMessages:
  assumes "\<And>sid. \<not> P (GetChatMessages sid)"
  shows "unchanged (\<lambda>w. filter P (cw_events w)) (getChatMessages env sid)"
  using assms by (auto simp: getChatMessages_def intro!: unchanged_intros)

lemma calls_saveChatMessages:
  assumes "\<And>sid. \<not> P (SaveChatMessages sid)"
  shows "unchanged (\<lambda>w. filter P (cw_events w)) (saveChatMessages env sid msgs)"
  unfolding saveChatMessages_def
  by (rule unchanged_bindA, rule unchanged_emit_calls, rule assms) (simp add: unchanged_def)

lemma calls_saveUserMessage:
  assumes "\<And>sid. \<not> P (GetChatMessages sid)" and "\<And>sid. \<not> P (SaveChatMessages sid)"
    and "\<And>sid uid. \<not> P (UpdateChatSession sid uid)"
  shows "unchanged (\<lambda>w. filter P (cw_events w)) (saveUserMessage env user body)"
  using assms
  by (auto simp: saveUserMessage_def Let_def calls_getChatMessages calls_saveChatMessages
      intro!: unchanged_intros split: option.splits)

lemma calls_streamTextStage:
  assumes "\<And>m opts. \<not> P (StreamText m opts)"
  shows "unchanged (\<lambda>w. filter P (cw_events w)) (streamTextStage env req sel)"
  using assms by (auto simp: streamTextStage_def intro!: unchanged_intros)

lemma calls_incrementStage_skipped:
  assumes "\<not> (isUserInitiated messages \<and> \<not> ce_isDevelopment env)"
  shows "unchanged f (incrementStage env user messages)"
  using assms by (auto simp: incrementStage_def intro!: unchanged_intros)

lemma calls_incrementStage:
  assumes "\<And>uid. \<not> P (IncrementRateLimit uid)"
  shows "unchanged (\<lambda>w. filter P (cw_events w)) (incrementStage env user messages)"
  using assms by (auto simp: incrementStage_def intro!: unchanged_intros split: option.splits)

lemma sessions_streamTextStage: "unchanged cw_sessions (streamTextStage env req sel)"
  by (auto simp: streamTextStage_def intro!: unchanged_bindA unchanged_basic unchanged_emit_sessions)

lemma sessions_incrementStage: "unchanged cw_sessions (incrementStage env user messages)"
  by (auto simp: incrementStage_def intro!: unchanged_bindA unchanged_basic unchanged_emit_sessions
      split: option.splits)

lemma sessions_fromStreaming: "unchanged cw_sessions (fromStreaming env req user body sel)"
  unfolding fromStreaming_def
  by (intro unchanged_bindA unchanged_basic sessions_streamTextStage sessions_incrementStage)

lemma streamText_beforeStreaming:
  "unchanged (\<lambda>w. filter isStreamText (cw_events w)) (beforeStreaming env req user body)"
  unfolding beforeStreaming_def
  by (intro unchanged_bindA unchanged_basic calls_createClients calls_gatewayKeyStage
      calls_accessStage calls_rateLimitStage calls_selectProvider calls_userTierStage
      calls_saveUserMessage) simp_all

lemma rateLimit_handler_skipped:
  assumes "rq_json req = Inr body" and "ce_getUser env = Inr user"
    and "\<not> (isUserInitiated (cb_messages body) \<and> \<not> ce_isDevelopment env)"
  shows "unchanged (\<lambda>w. filter isRateLimitCall (cw_events w)) (handler env req)"
  unfolding handler_phases [OF assms(1,2)] beforeStreaming_def fromStreaming_def
  by (intro unchanged_bindA unchanged_basic calls_createClients calls_gatewayKeyStage
      calls_accessStage calls_rateLimitStage_skipped calls_selectProvider calls_userTierStage
      calls_saveUserMessage calls_streamTextStage calls_incrementStage_skipped assms(3)) simp_all


lemma unchangedD: "unchanged f m \<Longrightarrow> m w = (s, w1) \<Longrightarrow> f w1 = f w"
  by (auto simp: unchanged_def dest: spec [of _ w])

lemma rateLimitStage_Next:
  assumes "rateLimitStage env user messages w = (Next x, w1)"
    and "isUserInitiated messages" and "\<not> ce_isDevelopment env"
  shows "filter isRateLimitCall (cw_events w1)
       = filter isRateLimitCall (cw_events w)
         @ [case user of None \<Rightarrow> CheckAnonymousRateLimit | Some uid \<Rightarrow> CheckUserRateLimit uid]"
  using assms
  by (auto simp: rateLimitStage_def bindA_def emit_def await_def proceed_def respond_def
      split: option.splits sum.splits if_splits)

lemma incrementStage_counted:
  assumes "incrementStage env user messages w = (s, w1)"
    and "isUserInitiated messages" and "\<not> ce_isDevelopment env"
  shows "filter isRateLimitCall (cw_events w1)
       = filter isRateLimitCall (cw_events w)
         @ (case user of None \<Rightarrow> [] | Some uid \<Rightarrow> [IncrementRateLimit uid])"
  using assms
  by (auto simp: incrementStage_def bindA_def emit_def proceed_def split: option.splits)

lemma beforeStreaming_Next:
  assumes "beforeStreaming env req user body w = (Next sel, w1)"
  shows "\<exists>w2 w3 w4 w5 w6 w7 tier.
           createClients env w = (Next (), w2)
         \<and> accessStage env user w2 = (Next (), w3)
         \<and> rateLimitStage env user (cb_messages body) w3 = (Next (), w4)
         \<and> gatewayKeyStage env w4 = (Next (), w5)
         \<and> selectProvider env req user w5 = (Next sel, w6)
         \<and> userTierStage env user w6 = (Next tier, w7)
         \<and> saveUserMessage env user body w7 = (Next (), w1)"
  using assms
  by (simp add: beforeStreaming_def bindA_Next proceed_def) blast

lemma fromStreaming_Next:
  assumes "fromStreaming env req user body sel w = (Next r, w1)"
  shows "\<exists>w2. streamTextStage env req sel w = (Next (), w2)
         \<and> incrementStage env user (cb_messages body) w2 = (Next (), w1)
         \<and> r = StreamResponse (streamHeaders env)"
  using assms
  by (simp add: fromStreaming_def bindA_Next proceed_def) blast

lemma rateLimit_handler_counted:
  assumes json: "rq_json req = Inr body" and usr: "ce_getUser env = Inr user"
    and ui: "isUserInitiated (cb_messages body)" and prod: "\<not> ce_isDevelopment env"
    and run: "handler env req w = (Next r, w')"
  shows "filter isRateLimitCall (cw_events w')
       = filter isRateLimitCall (cw_events w)
         @ (case user of
              None \<Rightarrow> [CheckAnonymousRateLimit]
            | Some uid \<Rightarrow> [CheckUserRateLimit uid, IncrementRateLimit uid])"
proof -
  let ?calls = "\<lambda>w. filter isRateLimitCall (cw_events w)"
  from run obtain sel w1 where before: "beforeStreaming env req user body w = (Next sel, w1)"
    and after: "fromStreaming env req user body sel w1 = (Next r, w')"
    by (auto simp: handler_phases [OF json usr] bindA_Next)
  from beforeStreaming_Next [OF before] obtain w2 w3 w4 w5 w6 w7 tier where
    s1: "createClients env w = (Next (), w2)"
    and s2: "accessStage env user w2 = (Next (), w3)"
    and s3: "rateLimitStage env user (cb_messages body) w3 = (Next (), w4)"
    and s4: "gatewayKeyStage env w4 = (Next (), w5)"
    and s5: "selectProvider env req user w5 = (Next sel, w6)"
    and s6: "userTierStage env user w6 = (Next tier, w7)"
    and s7: "saveUserMessage env user body w7 = (Next (), w1)"
    by blast
  from fromStreaming_Next [OF after] obtain w8 where
    s8: "streamTextStage env req sel w1 = (Next (), w8)"
    and s9: "incrementStage env user (cb_messages body) w8 = (Next (), w')"
    by blast
  have "?calls w2 = ?calls w"
    by (rule unchangedD [OF calls_createClients s1])
  moreover have "?calls w3 = ?calls w2"
    by (rule unchangedD [OF calls_accessStage s2]) simp
  moreover have "?calls w4 = ?calls w3
      @ [case user of None \<Rightarrow> CheckAnonymousRateLimit | Some uid \<Rightarrow> CheckUserRateLimit uid]"
    by (rule rateLimitStage_Next [OF s3 ui prod])
  moreover have "?calls w5 = ?calls w4"
    by (rule unchangedD [OF calls_gatewayKeyStage s4])
  moreover have "?calls w6 = ?calls w5"
    by (rule unchangedD [OF calls_selectProvider s5]) simp_all
  moreover have "?calls w7 = ?calls w6"
    by (rule unchangedD [OF calls_userTierStage s6]) simp
  moreover have "?calls w1 = ?calls w7"
    by (rule unchangedD [OF calls_saveUserMessage s7]) simp_all
  moreover have "?calls w8 = ?calls w1"
    by (rule unchangedD [OF calls_streamTextStage s8]) simp
  moreover have "?calls w' = ?calls w8
      @ (case user of None \<Rightarrow> [] | Some uid \<Rightarrow> [IncrementRateLimit uid])"
    by (rule incrementStage_counted [OF s9 ui prod])
  ultimately show ?thesis
    by (simp split: option.splits)
qed


subsection \<open>The user's message is saved before generation\<close>

lemma POST_world: "snd (POST env req w) = snd (handler env req w)"
  by (simp add: POST_def split: prod.splits step.splits)

lemma parseContents_snoc:
  assumes "parseContents parse (xs @ [m]) = Inr all" and "sm_content m = ContentParts ps"
  shows "\<exists>stored. all = stored @ [m]"
  using assms
proof (induction xs arbitrary: all)
  case Nil
  then show ?case by (auto split: sum.splits)
next
  case (Cons x xs)
  then obtain rest where "parseContents parse (xs @ [m]) = Inr rest"
    by (auto split: sum.splits stored_content.splits)
  with Cons.IH [of rest] Cons.prems(2) obtain stored where "rest = stored @ [m]"
    by blast
  with Cons.prems(1) \<open>parseContents parse (xs @ [m]) = Inr rest\<close> show ?case
    by (auto split: sum.splits stored_content.splits)
qed

lemma saveUserMessage_Next:
  assumes run: "saveUserMessage env (Some uid) body w = (Next x, w1)"
    and sid: "truthy (cb_sessionId body)" and usr: "isUserMessage (cb_messages body)"
    and ok: "\<not> ce_saveChatMessagesFails env"
  shows "\<exists>stored.
           cw_sessions w1 (orElse (cb_sessionId body) [])
             = Some (stored @ [userMessageToSave env (last (cb_messages body))])
         \<and> SaveChatMessages (orElse (cb_sessionId body) []) \<in> set (cw_events w1)"
proof -
  let ?sid = "orElse (cb_sessionId body) []"
  let ?msg = "userMessageToSave env (last (cb_messages body))"
  from usr have ne: "cb_messages body \<noteq> []" and role: "msg_role (last (cb_messages body)) = ''user''"
    by (simp_all add: isUserMessage_def)
  from run sid ne role
  have "bindA (getChatMessages env ?sid) (\<lambda>existingMessages.
          bindA (await (parseContents (ce_jsonParse env)
                          ((case existingMessages of None \<Rightarrow> [] | Some ms \<Rightarrow> ms) @ [?msg])))
            (\<lambda>allMessages.
          bindA (saveChatMessages env ?sid allMessages) (\<lambda>_.
          bindA (emit (UpdateChatSession ?sid uid)) (\<lambda>_.
            awaitVoid (ce_updateChatSession env))))) w = (Next x, w1)"
    by (simp add: saveUserMessage_def Let_def)
  then obtain existing wa where
    g: "getChatMessages env ?sid w = (Next existing, wa)"
    and r1: "bindA (await (parseContents (ce_jsonParse env)
                          ((case existing of None \<Rightarrow> [] | Some ms \<Rightarrow> ms) @ [?msg])))
            (\<lambda>allMessages.
          bindA (saveChatMessages env ?sid allMessages) (\<lambda>_.
          bindA (emit (UpdateChatSession ?sid uid)) (\<lambda>_.
            awaitVoid (ce_updateChatSession env)))) wa = (Next x, w1)"
    by (rule bindA_NextE)
  from r1 obtain all wa' where
    p': "await (parseContents (ce_jsonParse env)
                 ((case existing of None \<Rightarrow> [] | Some ms \<Rightarrow> ms) @ [?msg])) wa = (Next all, wa')"
    and r2: "bindA (saveChatMessages env ?sid all) (\<lambda>_.
          bindA (emit (UpdateChatSession ?sid uid)) (\<lambda>_.
            awaitVoid (ce_updateChatSession env))) wa' = (Next x, w1)"
    by (rule bindA_NextE)
  from p' have p: "parseContents (ce_jsonParse env)
              ((case existing of None \<Rightarrow> [] | Some ms \<Rightarrow> ms) @ [?msg]) = Inr all"
    and wa': "wa' = wa"
    by (auto simp: await_def split: sum.splits)
  from r2 obtain u1 wb where
    s: "saveChatMessages env ?sid all wa' = (Next u1, wb)"
    and r3: "bindA (emit (UpdateChatSession ?sid uid)) (\<lambda>_.
            awaitVoid (ce_updateChatSession env)) wb = (Next x, w1)"
    by (rule bindA_NextE)
  from r3 obtain u2 wc where
    u: "emit (UpdateChatSession ?sid uid) wb = (Next u2, wc)"
    and e: "awaitVoid (ce_updateChatSession env) wc = (Next x, w1)"
    by (rule bindA_NextE)
  from p obtain stored where all: "all = stored @ [?msg]"
    using parseContents_snoc [of "ce_jsonParse env" _ ?msg all] by (auto simp: userMessageToSave_def)
  from s ok have "cw_sessions wb ?sid = Some all" and "SaveChatMessages ?sid \<in> set (cw_events wb)"
    by (auto simp: saveChatMessages_def bindA_def emit_def)
  moreover from u have "cw_sessions wc = cw_sessions wb" and "set (cw_events wb) \<subseteq> set (cw_events wc)"
    by (auto simp: emit_def)
  moreover from e have "w1 = wc"
    by (auto simp: awaitVoid_def split: option.splits)
  ultimately show ?thesis using all by auto
qed

lemma fromStreaming_events:
  assumes "fromStreaming env req user body sel w = (s, w1)"
  shows "\<exists>rest. cw_events w1
           = cw_events w @ StreamText (sel_model sel) (providerOptions env req sel) # rest
         \<and> filter isStreamText rest = []"
  using assms
  by (auto simp: fromStreaming_def streamTextStage_def incrementStage_def bindA_def emit_def
      awaitVoid_def proceed_def split: option.splits if_splits)

text \<open>
  Claim C3, amended. For a turn of a signed-in user that carries a session identifier and
  whose last message is a user message, if the save does not fail and generation begins
  (\<^verbatim>\<open>streamText\<close> is called), then the save of the session precedes that call, and
  when the handler ends, also when \<^verbatim>\<open>streamText\<close> throws at once, the last stored
  message of the session is the user's message.
\<close>

theorem user_message_saved_before_generation:
  assumes json: "rq_json req = Inr body" and usr: "ce_getUser env = Inr (Some uid)"
    and sid: "truthy (cb_sessionId body)" and last: "isUserMessage (cb_messages body)"
    and ok: "\<not> ce_saveChatMessagesFails env"
    and fresh: "cw_events w = []"
    and gen: "StreamText m opts \<in> set (cw_events (snd (POST env req w)))"
  shows "\<exists>stored pre post.
           cw_sessions (snd (POST env req w)) (orElse (cb_sessionId body) [])
             = Some (stored @ [userMessageToSave env (last (cb_messages body))])
         \<and> cw_events (snd (POST env req w)) = pre @ StreamText m opts # post
         \<and> SaveChatMessages (orElse (cb_sessionId body) []) \<in> set pre"
proof -
  let ?before = "beforeStreaming env req (Some uid) body"
  let ?after = "fromStreaming env req (Some uid) body"
  obtain s w' where run: "handler env req w = (s, w')"
    by (cases "handler env req w")
  with gen have gen': "StreamText m opts \<in> set (cw_events w')"
    by (simp add: POST_world)
  from run have "bindA ?before ?after w = (s, w')"
    by (simp add: handler_phases [OF json usr])
  then show ?thesis
  proof (cases rule: bindA_cases)
    case (goes_on sel w1)
    from unchangedD [OF streamText_beforeStreaming goes_on(1)] fresh
    have quiet: "filter isStreamText (cw_events w1) = []" by simp
    from beforeStreaming_Next [OF goes_on(1)] obtain w7 where
      "saveUserMessage env (Some uid) body w7 = (Next (), w1)" by blast
    from saveUserMessage_Next [OF this sid last ok] obtain stored where
      stored: "cw_sessions w1 (orElse (cb_sessionId body) [])
             = Some (stored @ [userMessageToSave env (last (cb_messages body))])"
      and saved: "SaveChatMessages (orElse (cb_sessionId body) []) \<in> set (cw_events w1)"
      by blast
    from fromStreaming_events [OF goes_on(2)] obtain rest where
      ev: "cw_events w' = cw_events w1 @ StreamText (sel_model sel) (providerOptions env req sel) # rest"
      and rest: "filter isStreamText rest = []" by blast
    from quiet have "StreamText m opts \<notin> set (cw_events w1)"
      by (auto simp: filter_empty_conv)
    moreover from rest have "StreamText m opts \<notin> set rest"
      by (auto simp: filter_empty_conv)
    ultimately have "StreamText m opts = StreamText (sel_model sel) (providerOptions env req sel)"
      using gen' ev by auto
    with ev have ev': "cw_events w' = cw_events w1 @ StreamText m opts # rest" by simp
    from unchangedD [OF sessions_fromStreaming goes_on(2)] stored
    have "cw_sessions w' (orElse (cb_sessionId body) [])
             = Some (stored @ [userMessageToSave env (last (cb_messages body))])" by simp
    with ev' saved run show ?thesis by (auto simp: POST_world)
  next
    case (returns r)
    from unchangedD [OF streamText_beforeStreaming returns(1)] fresh
    have "filter isStreamText (cw_events w') = []" by simp
    with gen' show ?thesis by (auto simp: filter_empty_conv)
  next
    case (throws e)
    from unchangedD [OF streamText_beforeStreaming throws(1)] fresh
    have "filter isStreamText (cw_events w') = []" by simp
    with gen' show ?thesis by (auto simp: filter_empty_conv)
  qed
qed

text \<open>
  Claim C3, as stated, fails: for a visitor who is not signed in, the turn is served and
  \<^verbatim>\<open>streamText\<close> is called, yet nothing was saved before it and the session holds no
  message afterwards. The same happens for a signed-in user whose request carries no
  session identifier (no save is called), and when the save fails (its result is not
  looked at). The block that saves is guarded by the presence of a user and of a session
  identifier.
\<close>

theorem anonymous_message_not_saved_counterexample:
  "isUserMessage (cb_messages firstTurnBody)
   \<and> fst (POST anonymousEnv firstTurn emptyWorld) = StreamResponse (streamHeaders anonymousEnv)
   \<and> cw_events (snd (POST anonymousEnv firstTurn emptyWorld))
       = [CheckAnonymousRateLimit, StreamText (GatewayModel ''openai/gpt-5'') OpenAIReasoning]
   \<and> cw_sessions (snd (POST anonymousEnv firstTurn emptyWorld)) ''session-1'' = None
   \<and> isUserMessage (cb_messages noSessionBody)
   \<and> fst (POST exampleEnv noSessionTurn emptyWorld) = StreamResponse (streamHeaders exampleEnv)
   \<and> cw_events (snd (POST exampleEnv noSessionTurn emptyWorld))
       = [ValidateAccess ''user-1'', CheckUserRateLimit ''user-1'', GetUserProfile ''user-1'',
          GetUserProfile ''user-1'', StreamText (GatewayModel ''openai/gpt-5'') OpenAIReasoning,
          IncrementRateLimit ''user-1'']
   \<and> fst (POST failingSaveEnv firstTurn emptyWorld) = StreamResponse (streamHeaders failingSaveEnv)
   \<and> filter isStreamText (cw_events (snd (POST failingSaveEnv firstTurn emptyWorld)))
       = [StreamText (GatewayModel ''openai/gpt-5'') OpenAIReasoning]
   \<and> cw_sessions (snd (POST failingSaveEnv firstTurn emptyWorld)) ''session-1'' = None"
  by code_simp

theorem user_message_saved_before_generation_witness:
  "rq_json firstTurn = Inr firstTurnBody
   \<and> ce_getUser brokenStreamEnv = Inr (Some ''user-1'')
   \<and> truthy (cb_sessionId firstTurnBody)
   \<and> isUserMessage (cb_messages firstTurnBody)
   \<and> \<not> ce_saveChatMessagesFails brokenStreamEnv
   \<and> cw_events emptyWorld = []
   \<and> StreamText (GatewayModel ''openai/gpt-5'') OpenAIReasoning
        \<in> set (cw_events (snd (POST brokenStreamEnv firstTurn emptyWorld)))
   \<and> (\<exists>stored pre post.
         cw_sessions (snd (POST brokenStreamEnv firstTurn emptyWorld)) ''session-1''
           = Some (stored @ [\<lparr> sm_id = ''uuid-1'', sm_role = ''user'',
                                sm_content = ContentParts [''question''] \<rparr>])
         \<and> cw_events (snd (POST brokenStreamEnv firstTurn emptyWorld))
             = pre @ StreamText (GatewayModel ''openai/gpt-5'') OpenAIReasoning # post
         \<and> SaveChatMessages ''session-1'' \<in> set pre)"
proof -
  have h1: "rq_json firstTurn = Inr firstTurnBody" by (simp add: firstTurn_def)
  have h2: "ce_getUser brokenStreamEnv = Inr (Some ''user-1'')"
    by (simp add: brokenStreamEnv_def exampleEnv_def)
  have h3: "truthy (cb_sessionId firstTurnBody)" by (simp add: firstTurnBody_def)
  have h4: "isUserMessage (cb_messages firstTurnBody)"
    by (simp add: firstTurnBody_def isUserMessage_def userMsg_def)
  have h5: "\<not> ce_saveChatMessagesFails brokenStreamEnv"
    by (simp add: brokenStreamEnv_def exampleEnv_def)
  have h6: "cw_events emptyWorld = []" by (simp add: emptyWorld_def)
  have h7: "StreamText (GatewayModel ''openai/gpt-5'') OpenAIReasoning
        \<in> set (cw_events (snd (POST brokenStreamEnv firstTurn emptyWorld)))"
    by code_simp
  have sid: "orElse (cb_sessionId firstTurnBody) [] = ''session-1''"
    by (simp add: firstTurnBody_def)
  have msg: "userMessageToSave brokenStreamEnv (last (cb_messages firstTurnBody))
      = \<lparr> sm_id = ''uuid-1'', sm_role = ''user'', sm_content = ContentParts [''question''] \<rparr>"
    by (simp add: userMessageToSave_def firstTurnBody_def userMsg_def brokenStreamEnv_def
        exampleEnv_def)
  from user_message_saved_before_generation [OF h1 h2 h3 h4 h5 h6 h7]
  have "\<exists>stored pre post.
         cw_sessions (snd (POST brokenStreamEnv firstTurn emptyWorld)) ''session-1''
           = Some (stored @ [\<lparr> sm_id = ''uuid-1'', sm_role = ''user'',
                                sm_content = ContentParts [''question''] \<rparr>])
         \<and> cw_events (snd (POST brokenStreamEnv firstTurn emptyWorld))
             = pre @ StreamText (GatewayModel ''openai/gpt-5'') OpenAIReasoning # post
         \<and> SaveChatMessages ''session-1'' \<in> set pre"
    by (simp only: sid msg)
  with h1 h2 h3 h4 h5 h6 h7 show ?thesis by blast
qed

subsection \<open>Rate limiting\<close>

lemma errorResponse_json: "errorResponse e \<noteq> StreamResponse hs"
  by (simp add: errorResponse_def Let_def)

lemma POST_stream:
  assumes "fst (POST env req w) = StreamResponse hs"
  shows "handler env req w = (Next (StreamResponse hs), snd (POST env req w))"
proof (cases "handler env req w")
  case (Pair s w')
  show ?thesis
  proof (cases s)
    case (Next r)
    with Pair assms show ?thesis by (simp add: POST_def)
  next
    case (Return r)
    from returnsOnly_handler [of env req]
    have "case fst (handler env req w) of Return r \<Rightarrow> matchesSpecStatus r
          | Next x \<Rightarrow> True | Throw e \<Rightarrow> True"
      unfolding returnsOnly_def by (rule spec)
    with Pair Return have "matchesSpecStatus r" by simp
    moreover from Pair Return assms have "r = StreamResponse hs" by (simp add: POST_def)
    ultimately show ?thesis by simp
  next
    case (Throw e)
    with Pair assms errorResponse_json [of e hs] show ?thesis by (simp add: POST_def)
  qed
qed

text \<open>
  Claim C1, amended. For a request whose body parses and whose user lookup succeeds: when
  the request is in development mode, or its last message is not a user message, or its
  body holds more than one user message, the handler makes no call of the rate limiter,
  neither a check nor an increment; when it is outside development mode, its last message
  is a user message, that message is the only user message of the body, and the request
  is answered with the stream, the handler makes exactly one check, followed for a
  signed-in user by exactly one increment and for an anonymous visitor by none.
\<close>

theorem rate_limit_counts_first_user_message:
  assumes json: "rq_json req = Inr body" and usr: "ce_getUser env = Inr user"
  shows "(\<not> (isUserInitiated (cb_messages body) \<and> \<not> ce_isDevelopment env) \<longrightarrow>
            filter isRateLimitCall (cw_events (snd (POST env req w)))
              = filter isRateLimitCall (cw_events w))
       \<and> (isUserInitiated (cb_messages body) \<and> \<not> ce_isDevelopment env
            \<and> fst (POST env req w) = StreamResponse hs \<longrightarrow>
            filter isRateLimitCall (cw_events (snd (POST env req w)))
              = filter isRateLimitCall (cw_events w)
                @ (case user of
                     None \<Rightarrow> [CheckAnonymousRateLimit]
                   | Some uid \<Rightarrow> [CheckUserRateLimit uid, IncrementRateLimit uid]))"
proof (intro conjI impI)
  assume skip: "\<not> (isUserInitiated (cb_messages body) \<and> \<not> ce_isDevelopment env)"
  from rateLimit_handler_skipped [OF json usr skip]
  have "filter isRateLimitCall (cw_events (snd (handler env req w)))
      = filter isRateLimitCall (cw_events w)"
    unfolding unchanged_def by (rule spec)
  then show "filter isRateLimitCall (cw_events (snd (POST env req w)))
              = filter isRateLimitCall (cw_events w)"
    by (simp add: POST_world)
next
  assume a: "isUserInitiated (cb_messages body) \<and> \<not> ce_isDevelopment env
            \<and> fst (POST env req w) = StreamResponse hs"
  then have run: "handler env req w = (Next (StreamResponse hs), snd (POST env req w))"
    by (simp add: POST_stream)
  from a have ui: "isUserInitiated (cb_messages body)" and prod: "\<not> ce_isDevelopment env"
    by simp_all
  show "filter isRateLimitCall (cw_events (snd (POST env req w)))
              = filter isRateLimitCall (cw_events w)
                @ (case user of
                     None \<Rightarrow> [CheckAnonymousRateLimit]
                   | Some uid \<Rightarrow> [CheckUserRateLimit uid, IncrementRateLimit uid])"
    by (rule rateLimit_handler_counted [OF json usr ui prod run])
qed

text \<open>
  Claim C1, as stated, fails: in production mode a request whose last message is the user
  message of a second turn is served without any check or increment, since the body holds
  two user messages; and the first turn of an anonymous visitor is checked and served
  without an increment on the server.
\<close>

theorem follow_up_turn_not_counted_counterexample:
  "\<not> ce_isDevelopment exampleEnv
   \<and> isUserMessage (cb_messages secondTurnBody)
   \<and> fst (POST exampleEnv secondTurn emptyWorld) = StreamResponse (streamHeaders exampleEnv)
   \<and> filter isRateLimitCall (cw_events (snd (POST exampleEnv secondTurn emptyWorld))) = []
   \<and> isUserMessage (cb_messages firstTurnBody)
   \<and> fst (POST anonymousEnv firstTurn emptyWorld) = StreamResponse (streamHeaders anonymousEnv)
   \<and> filter isRateLimitCall (cw_events (snd (POST anonymousEnv firstTurn emptyWorld)))
       = [CheckAnonymousRateLimit]"
  by code_simp

theorem rate_limit_counts_first_user_message_witness:
  "rq_json firstTurn = Inr firstTurnBody \<and> ce_getUser exampleEnv = Inr (Some ''user-1'')
   \<and> isUserInitiated (cb_messages firstTurnBody) \<and> \<not> ce_isDevelopment exampleEnv
   \<and> fst (POST exampleEnv firstTurn emptyWorld) = StreamResponse (streamHeaders exampleEnv)
   \<and> filter isRateLimitCall (cw_events (snd (POST exampleEnv firstTurn emptyWorld)))
       = [CheckUserRateLimit ''user-1'', IncrementRateLimit ''user-1'']
   \<and> rq_json secondTurn = Inr secondTurnBody
   \<and> \<not> isUserInitiated (cb_messages secondTurnBody)
   \<and> filter isRateLimitCall (cw_events (snd (POST exampleEnv secondTurn emptyWorld))) = []"
proof -
  have j1: "rq_json firstTurn = Inr firstTurnBody" by (simp add: firstTurn_def)
  have j2: "rq_json secondTurn = Inr secondTurnBody" by (simp add: secondTurn_def)
  have u: "ce_getUser exampleEnv = Inr (Some ''user-1'')" by (simp add: exampleEnv_def)
  have ui1: "isUserInitiated (cb_messages firstTurnBody)" by code_simp
  have ui2: "\<not> isUserInitiated (cb_messages secondTurnBody)" by code_simp
  have prod: "\<not> ce_isDevelopment exampleEnv" by (simp add: exampleEnv_def)
  have served: "fst (POST exampleEnv firstTurn emptyWorld) = StreamResponse (streamHeaders exampleEnv)"
    by code_simp
  have fresh: "cw_events emptyWorld = []" by (simp add: emptyWorld_def)
  from rate_limit_counts_first_user_message
    [OF j1 u, of emptyWorld "streamHeaders exampleEnv"] ui1 prod served fresh
  have c1: "filter isRateLimitCall (cw_events (snd (POST exampleEnv firstTurn emptyWorld)))
       = [CheckUserRateLimit ''user-1'', IncrementRateLimit ''user-1'']"
    by simp
  from rate_limit_counts_first_user_message
    [OF j2 u, of emptyWorld "streamHeaders exampleEnv"] ui2 fresh
  have c2: "filter isRateLimitCall (cw_events (snd (POST exampleEnv secondTurn emptyWorld))) = []"
    by simp
  from j1 u ui1 prod served c1 j2 ui2 c2 show ?thesis by blast
qed

end
